theory Spec2Isabelle
  imports Complex_Main
begin

section \<open>MarketBeat analyst-rating scraper: strings and Python built-ins\<close>

text \<open>
  The program is \<^verbatim>\<open>marketbeat/marketbeat.py\<close>. It reads HTML tables with BeautifulSoup,
  converts each table row into a dictionary and hands the dictionaries to pandas.

  A Python \<^verbatim>\<open>str\<close> is a sequence of Unicode code points, so a string is a list of
  natural numbers here (the arrow glyph U+279D is no 8-bit character). \<open>str\<close> turns an
  ASCII literal into such a list.

  Modelling boundary of the library calls: the Unicode character classes of Python
  (\<^verbatim>\<open>\d\<close>, \<^verbatim>\<open>\w\<close>, the digits accepted by \<^verbatim>\<open>int\<close> and \<^verbatim>\<open>float\<close>) are taken on ASCII:
  a code point above 127 is neither a digit nor a word character. Whitespace is the
  full set of \<^verbatim>\<open>str.isspace\<close>.
\<close>

type_synonym ustr = "nat list"

definition str :: "string \<Rightarrow> ustr" where
  "str s = map of_char s"

text \<open>
  The exceptions. Those the program raises are built-in subclasses of \<^verbatim>\<open>Exception\<close>;
  the program defines no exception class of its own. \<open>TableNotFoundError\<close> is the
  name the specification gives to a failed table lookup; no function below returns it.
\<close>

datatype error =
  AttributeError | IndexError | TypeError | ValueError | KeyError | TableNotFoundError

definition ebind :: "error + 'a \<Rightarrow> ('a \<Rightarrow> error + 'b) \<Rightarrow> error + 'b" where
  "ebind m f = (case m of Inl e \<Rightarrow> Inl e | Inr x \<Rightarrow> f x)"

definition arrow :: nat where
  "arrow = 10141"

definition is_space :: "nat \<Rightarrow> bool" where
  "is_space c \<longleftrightarrow>
     (9 \<le> c \<and> c \<le> 13) \<or> (28 \<le> c \<and> c \<le> 32) \<or> c = 133 \<or> c = 160 \<or> c = 5760 \<or>
     (8192 \<le> c \<and> c \<le> 8202) \<or> c = 8232 \<or> c = 8233 \<or> c = 8239 \<or> c = 8287 \<or> c = 12288"

definition is_digit :: "nat \<Rightarrow> bool" where
  "is_digit c \<longleftrightarrow> 48 \<le> c \<and> c \<le> 57"

definition is_word :: "nat \<Rightarrow> bool" where
  "is_word c \<longleftrightarrow> is_digit c \<or> (65 \<le> c \<and> c \<le> 90) \<or> (97 \<le> c \<and> c \<le> 122) \<or> c = 95"

text \<open>\<^verbatim>\<open>s.strip()\<close>\<close>

definition strip :: "ustr \<Rightarrow> ustr" where
  "strip s = rev (dropWhile is_space (rev (dropWhile is_space s)))"

text \<open>\<^verbatim>\<open>s.split(sep)\<close> for a separator of one character; the result is never empty.\<close>

fun split_char :: "nat \<Rightarrow> ustr \<Rightarrow> ustr list" where
  "split_char c [] = [[]]"
| "split_char c (x # xs) =
     (if x = c then [] # split_char c xs
      else (case split_char c xs of [] \<Rightarrow> [[x]] | w # ws \<Rightarrow> (x # w) # ws))"

text \<open>\<^verbatim>\<open>xs[i]\<close>: a negative index counts from the end, an index out of range raises.\<close>

definition py_index :: "'a list \<Rightarrow> int \<Rightarrow> error + 'a" where
  "py_index xs i =
     (if 0 \<le> i \<and> i < int (length xs) then Inr (xs ! nat i)
      else if i < 0 \<and> - i \<le> int (length xs) then Inr (xs ! nat (int (length xs) + i))
      else Inl IndexError)"

text \<open>\<^verbatim>\<open>s.replace(old, "")\<close> for a non-empty \<^verbatim>\<open>old\<close>: occurrences are removed from left
  to right, without overlap.\<close>

function py_remove :: "ustr \<Rightarrow> ustr \<Rightarrow> ustr" where
  "py_remove old [] = []"
| "py_remove old (x # xs) =
     (if old \<noteq> [] \<and> take (length old) (x # xs) = old
      then py_remove old (drop (length old) (x # xs))
      else x # py_remove old xs)"
  by pat_completeness auto
termination
  by (relation "measure (\<lambda>(old, s). length s)") auto

text \<open>
  A run of decimal digits in which single underscores may separate digits: the
  \<^verbatim>\<open>digitpart\<close> of Python's numeric literals, which \<^verbatim>\<open>int\<close> and \<^verbatim>\<open>float\<close> accept.
\<close>

fun digitpart :: "ustr \<Rightarrow> bool" where
  "digitpart [] = False"
| "digitpart [c] = is_digit c"
| "digitpart (c # d # cs) =
     (is_digit c \<and> (if d = 95 then digitpart cs else digitpart (d # cs)))"

definition digits_value :: "ustr \<Rightarrow> nat" where
  "digits_value s = foldl (\<lambda>a c. 10 * a + (c - 48)) 0 (filter is_digit s)"

text \<open>\<^verbatim>\<open>int(s)\<close> on a string: surrounding whitespace, an optional sign, a digitpart.\<close>

definition py_int :: "ustr \<Rightarrow> error + int" where
  "py_int s =
     (case strip s of
        [] \<Rightarrow> Inl ValueError
      | c # r \<Rightarrow>
          if c = 45 then (if digitpart r then Inr (- int (digits_value r)) else Inl ValueError)
          else if c = 43 then (if digitpart r then Inr (int (digits_value r)) else Inl ValueError)
          else if digitpart (c # r) then Inr (int (digits_value (c # r)))
          else Inl ValueError)"

text \<open>
  The result of \<^verbatim>\<open>float(s)\<close>. Python returns a binary64 number; the rounding is not
  modelled, and \<open>Fin q\<close> stands for the binary64 number nearest to the rational \<open>q\<close>
  that the literal denotes.
\<close>

datatype pyfloat = Fin rat | Inf bool | NaN

definition lower :: "ustr \<Rightarrow> ustr" where
  "lower s = map (\<lambda>c. if 65 \<le> c \<and> c \<le> 90 then c + 32 else c) s"

definition is_exp_mark :: "nat \<Rightarrow> bool" where
  "is_exp_mark c \<longleftrightarrow> c = 101 \<or> c = 69"

text \<open>The exponent after \<^verbatim>\<open>e\<close> or \<^verbatim>\<open>E\<close>: an optional sign and a digitpart.\<close>

definition float_exponent :: "ustr \<Rightarrow> int option" where
  "float_exponent x =
     (case x of
        [] \<Rightarrow> None
      | c # r \<Rightarrow>
          if c = 45 then (if digitpart r then Some (- int (digits_value r)) else None)
          else if c = 43 then (if digitpart r then Some (int (digits_value r)) else None)
          else if digitpart (c # r) then Some (int (digits_value (c # r)))
          else None)"

text \<open>
  The mantissa: \<^verbatim>\<open>digitpart\<close>, \<^verbatim>\<open>digitpart.\<close>, \<^verbatim>\<open>digitpart.digitpart\<close> or
  \<^verbatim>\<open>.digitpart\<close>. The result is the digit string's value and the number of digits
  after the point.
\<close>

definition float_mantissa :: "ustr \<Rightarrow> (nat \<times> nat) option" where
  "float_mantissa m =
     (let ip = takeWhile (\<lambda>c. c \<noteq> 46) m; rest = dropWhile (\<lambda>c. c \<noteq> 46) m
      in case rest of
           [] \<Rightarrow> if digitpart ip then Some (digits_value ip, 0) else None
         | _ # fp \<Rightarrow>
             if (ip = [] \<or> digitpart ip) \<and> (fp = [] \<or> digitpart fp) \<and> \<not> (ip = [] \<and> fp = [])
             then Some (digits_value (ip @ fp), length (filter is_digit fp))
             else None)"

definition scale10 :: "rat \<Rightarrow> int \<Rightarrow> rat" where
  "scale10 q e = (if 0 \<le> e then q * 10 ^ nat e else q / 10 ^ nat (- e))"

definition float_number :: "ustr \<Rightarrow> rat option" where
  "float_number t =
     (let m = takeWhile (\<lambda>c. \<not> is_exp_mark c) t; rest = dropWhile (\<lambda>c. \<not> is_exp_mark c) t
      in case float_mantissa m of
           None \<Rightarrow> None
         | Some (v, k) \<Rightarrow>
             (case rest of
                [] \<Rightarrow> Some (scale10 (of_nat v) (- int k))
              | _ # x \<Rightarrow>
                  (case float_exponent x of
                     None \<Rightarrow> None
                   | Some e \<Rightarrow> Some (scale10 (of_nat v) (e - int k)))))"

definition float_unsigned :: "ustr \<Rightarrow> pyfloat option" where
  "float_unsigned t =
     (if lower t = str ''inf'' \<or> lower t = str ''infinity'' then Some (Inf False)
      else if lower t = str ''nan'' then Some NaN
      else map_option Fin (float_number t))"

fun float_negate :: "pyfloat \<Rightarrow> pyfloat" where
  "float_negate (Fin q) = Fin (- q)"
| "float_negate (Inf b) = Inf (\<not> b)"
| "float_negate NaN = NaN"

text \<open>\<^verbatim>\<open>float(s)\<close> on a string.\<close>

definition py_float :: "ustr \<Rightarrow> error + pyfloat" where
  "py_float s =
     (let t = strip s;
          r = (case t of
                 [] \<Rightarrow> None
               | c # u \<Rightarrow>
                   if c = 45 then map_option float_negate (float_unsigned u)
                   else if c = 43 then float_unsigned u
                   else float_unsigned t)
      in case r of None \<Rightarrow> Inl ValueError | Some v \<Rightarrow> Inr v)"


subsection \<open>Dates\<close>

definition leap_year :: "nat \<Rightarrow> bool" where
  "leap_year y \<longleftrightarrow> y mod 4 = 0 \<and> (y mod 100 \<noteq> 0 \<or> y mod 400 = 0)"

definition days_in_month :: "nat \<Rightarrow> nat \<Rightarrow> nat" where
  "days_in_month y m =
     (if m = 2 then (if leap_year y then 29 else 28)
      else if m = 4 \<or> m = 6 \<or> m = 9 \<or> m = 11 then 30 else 31)"

text \<open>
  The directives of \<^verbatim>\<open>strptime\<close> as its regular expressions have them:
  \<^verbatim>\<open>%m\<close> is \<^verbatim>\<open>1[0-2]|0[1-9]|[1-9]\<close>, \<^verbatim>\<open>%d\<close> is \<^verbatim>\<open>3[01]|[12]\d|0[1-9]|[1-9]| [1-9]\<close>
  and \<^verbatim>\<open>%Y\<close> is \<^verbatim>\<open>\d\d\d\d\<close>. Each returns the number it read.
\<close>

definition strp_month :: "ustr \<Rightarrow> nat option" where
  "strp_month s =
     (case s of
        [a] \<Rightarrow> if 49 \<le> a \<and> a \<le> 57 then Some (a - 48) else None
      | [a, b] \<Rightarrow>
          if a = 49 \<and> 48 \<le> b \<and> b \<le> 50 then Some (10 + (b - 48))
          else if a = 48 \<and> 49 \<le> b \<and> b \<le> 57 then Some (b - 48)
          else None
      | _ \<Rightarrow> None)"

definition strp_day :: "ustr \<Rightarrow> nat option" where
  "strp_day s =
     (case s of
        [a] \<Rightarrow> if 49 \<le> a \<and> a \<le> 57 then Some (a - 48) else None
      | [a, b] \<Rightarrow>
          if a = 51 \<and> 48 \<le> b \<and> b \<le> 49 then Some (30 + (b - 48))
          else if (a = 49 \<or> a = 50) \<and> is_digit b then Some (10 * (a - 48) + (b - 48))
          else if (a = 48 \<or> a = 32) \<and> 49 \<le> b \<and> b \<le> 57 then Some (b - 48)
          else None
      | _ \<Rightarrow> None)"

definition strp_year :: "ustr \<Rightarrow> nat option" where
  "strp_year s =
     (if length s = 4 \<and> list_all is_digit s then Some (digits_value s) else None)"

text \<open>
  \<^verbatim>\<open>datetime.strptime(s, '%m/%d/%Y')\<close>: the whole string has to match, and the
  numbers have to form a date of the calendar (years 1 to 9999). The result is
  (year, month, day).
\<close>

definition strptime_mdY :: "ustr \<Rightarrow> error + (nat \<times> nat \<times> nat)" where
  "strptime_mdY s =
     (case split_char 47 s of
        [ms, ds, ys] \<Rightarrow>
          (case (strp_month ms, strp_day ds, strp_year ys) of
             (Some m, Some d, Some y) \<Rightarrow>
               if 1 \<le> y \<and> d \<le> days_in_month y m then Inr (y, m, d) else Inl ValueError
           | _ \<Rightarrow> Inl ValueError)
      | _ \<Rightarrow> Inl ValueError)"

definition digit_char :: "nat \<Rightarrow> nat" where
  "digit_char d = 48 + d mod 10"

definition two_digits :: "nat \<Rightarrow> ustr" where
  "two_digits n = [digit_char (n div 10), digit_char n]"

definition four_digits :: "nat \<Rightarrow> ustr" where
  "four_digits n =
     [digit_char (n div 1000), digit_char (n div 100), digit_char (n div 10), digit_char n]"

definition year_digits :: "nat \<Rightarrow> ustr" where
  "year_digits y =
     (if y < 10 then [digit_char y]
      else if y < 100 then two_digits y
      else if y < 1000 then digit_char (y div 100) # two_digits y
      else four_digits y)"

text \<open>
  \<^verbatim>\<open>.strftime(DATE_FORMAT)\<close> with \<^verbatim>\<open>DATE_FORMAT = '%Y-%m-%d'\<close>. The C library of
  the platform formats \<^verbatim>\<open>%Y\<close>; the model follows glibc, which does not pad a year
  below 1000.
\<close>

definition strftime_Ymd :: "nat \<times> nat \<times> nat \<Rightarrow> ustr" where
  "strftime_Ymd ymd =
     (case ymd of (y, m, d) \<Rightarrow> year_digits y @ [45] @ two_digits m @ [45] @ two_digits d)"

text \<open>
  \<^verbatim>\<open>DATE_RE = re.compile('\((\d{1,2}/\d{1,2}/\d{4})\)')\<close>. \<open>date_re_match\<close> is the
  match anchored at the head of the string and \<open>date_re_search\<close> is
  \<^verbatim>\<open>DATE_RE.search(s)\<close>, the leftmost match; both return group 1.
\<close>

definition date_re_match :: "ustr \<Rightarrow> ustr option" where
  "date_re_match s =
     (case s of
        [] \<Rightarrow> None
      | c # r \<Rightarrow>
          if c \<noteq> 40 then None
          else
            (let a = takeWhile is_digit r; r1 = dropWhile is_digit r in
             if (length a = 1 \<or> length a = 2) \<and> take 1 r1 = [47] then
               (let b = takeWhile is_digit (drop 1 r1); r2 = dropWhile is_digit (drop 1 r1) in
                if (length b = 1 \<or> length b = 2) \<and> take 1 r2 = [47] then
                  (let y = take 4 (drop 1 r2) in
                   if length y = 4 \<and> list_all is_digit y \<and> take 1 (drop 5 r2) = [41]
                   then Some (a @ [47] @ b @ [47] @ y)
                   else None)
                else None)
             else None))"

fun date_re_search :: "ustr \<Rightarrow> ustr option" where
  "date_re_search [] = None"
| "date_re_search (c # cs) =
     (case date_re_match (c # cs) of Some g \<Rightarrow> Some g | None \<Rightarrow> date_re_search cs)"

section \<open>The parsed document\<close>

text \<open>
  A BeautifulSoup tree: text nodes and tags with a name, the attribute dictionary (an
  association list with distinct keys) and the children. The \<^verbatim>\<open>BeautifulSoup\<close> object
  itself is a tag, whose children are the top-level nodes. Comments and other special
  strings are not part of the model.
\<close>

datatype node = Text ustr | Elem ustr "(ustr \<times> ustr) list" "node list"

text \<open>\<^verbatim>\<open>tag.text\<close>: all strings below the tag, concatenated.\<close>

fun node_text :: "node \<Rightarrow> ustr" where
  "node_text (Text s) = s"
| "node_text (Elem n a cs) = concat (map node_text cs)"

text \<open>\<^verbatim>\<open>tag.string\<close>: the string of a tag with a single child, followed downwards.\<close>

fun node_string :: "node \<Rightarrow> ustr option" where
  "node_string (Text s) = Some s"
| "node_string (Elem n a [c]) = node_string c"
| "node_string (Elem n a cs) = None"

text \<open>\<^verbatim>\<open>tag.descendants\<close>: everything below the tag in document order.\<close>

fun descendants :: "node \<Rightarrow> node list" where
  "descendants (Text s) = []"
| "descendants (Elem n a cs) = concat (map (\<lambda>c. c # descendants c) cs)"

fun tag_name :: "node \<Rightarrow> ustr option" where
  "tag_name (Text s) = None"
| "tag_name (Elem n a cs) = Some n"

fun tag_attrs :: "node \<Rightarrow> (ustr \<times> ustr) list" where
  "tag_attrs (Text s) = []"
| "tag_attrs (Elem n a cs) = a"

definition is_tag :: "ustr \<Rightarrow> node \<Rightarrow> bool" where
  "is_tag name n \<longleftrightarrow> tag_name n = Some name"

text \<open>\<^verbatim>\<open>tag.get(key)\<close> is \<open>map_of (tag_attrs tag) key\<close>; with a default:\<close>

definition get_default :: "node \<Rightarrow> ustr \<Rightarrow> ustr \<Rightarrow> ustr" where
  "get_default tag key dflt = (case map_of (tag_attrs tag) key of None \<Rightarrow> dflt | Some v \<Rightarrow> v)"

text \<open>
  The \<^verbatim>\<open>class\<close> attribute holds a list of tokens, split at whitespace; a filter
  \<^verbatim>\<open>{"class": c}\<close> with a token \<open>c\<close> selects the tags that carry \<open>c\<close> among them.
\<close>

fun tokens :: "ustr \<Rightarrow> ustr list" where
  "tokens [] = []"
| "tokens (x # xs) =
     (if is_space x then tokens xs
      else (case xs of
              [] \<Rightarrow> [[x]]
            | y # ys \<Rightarrow> if is_space y then [x] # tokens xs
                        else (case tokens xs of [] \<Rightarrow> [[x]] | w # ws \<Rightarrow> (x # w) # ws)))"

definition has_class :: "ustr \<Rightarrow> node \<Rightarrow> bool" where
  "has_class c n \<longleftrightarrow>
     (case map_of (tag_attrs n) (str ''class'') of None \<Rightarrow> False | Some v \<Rightarrow> c \<in> set (tokens v))"

definition has_id :: "ustr \<Rightarrow> node \<Rightarrow> bool" where
  "has_id v n \<longleftrightarrow> map_of (tag_attrs n) (str ''id'') = Some v"

text \<open>\<^verbatim>\<open>tag.find(...)\<close> and \<^verbatim>\<open>tag.find_all(...)\<close> with the filter \<open>p\<close>.\<close>

definition find_tag :: "(node \<Rightarrow> bool) \<Rightarrow> node \<Rightarrow> node option" where
  "find_tag p n = List.find p (descendants n)"

definition find_all :: "(node \<Rightarrow> bool) \<Rightarrow> node \<Rightarrow> node list" where
  "find_all p n = filter p (descendants n)"


text \<open>The position of the first element with \<open>p\<close>, counted from 0.\<close>

fun first_index :: "('a \<Rightarrow> bool) \<Rightarrow> 'a list \<Rightarrow> nat option" where
  "first_index p [] = None"
| "first_index p (x # xs) = (if p x then Some 0 else map_option Suc (first_index p xs))"

text \<open>
  \<^verbatim>\<open>junk.decompose()\<close> for every \<open>junk\<close> of \<^verbatim>\<open>root.find_all(...)\<close>: each tag below
  \<open>root\<close> that satisfies \<open>p\<close> leaves the tree.
\<close>

fun decompose_all :: "(node \<Rightarrow> bool) \<Rightarrow> node \<Rightarrow> node" where
  "decompose_all p (Text s) = Text s"
| "decompose_all p (Elem n a cs) = Elem n a (map (decompose_all p) (filter (\<lambda>c. \<not> p c) cs))"

text \<open>
  The tree is shared and mutable: removing rows below \<open>root\<close> changes the document
  that \<^verbatim>\<open>readTable\<close> returns. \<open>update_nodes i f cs\<close> replaces, in the forest \<open>cs\<close>, the
  node at position \<open>i\<close> of the document order by its image under \<open>f\<close>.
\<close>

fun update_nodes :: "nat \<Rightarrow> (node \<Rightarrow> node) \<Rightarrow> node list \<Rightarrow> node list" where
  "update_nodes i f [] = []"
| "update_nodes i f (Text s # cs) =
     (if i = 0 then f (Text s) # cs else Text s # update_nodes (i - 1) f cs)"
| "update_nodes i f (Elem n a ks # cs) =
     (if i = 0 then f (Elem n a ks) # cs
      else if i - 1 < length (descendants (Elem n a ks))
      then Elem n a (update_nodes (i - 1) f ks) # cs
      else Elem n a ks # update_nodes (i - 1 - length (descendants (Elem n a ks))) f cs)"

fun update_descendant :: "nat \<Rightarrow> (node \<Rightarrow> node) \<Rightarrow> node \<Rightarrow> node" where
  "update_descendant i f (Text s) = Text s"
| "update_descendant i f (Elem n a cs) = Elem n a (update_nodes i f cs)"

section \<open>Table Locator: \<^verbatim>\<open>readTable\<close>\<close>

text \<open>
  \<^verbatim>\<open>re.compile('.*{}.*'.format(search_string)).search(s)\<close> for a search string without
  regular-expression metacharacters (the repository passes \<^verbatim>\<open>"Ratings History"\<close>
  only): the search string occurs in \<open>s\<close>, character by character.
\<close>

fun contains :: "ustr \<Rightarrow> ustr \<Rightarrow> bool" where
  "contains h [] = (h = [])"
| "contains h (x # xs) = (take (length h) (x # xs) = h \<or> contains h xs)"

text \<open>The filter of \<^verbatim>\<open>soup.find("h2", string=re.compile(...))\<close>.\<close>

definition h2_matches :: "ustr \<Rightarrow> node \<Rightarrow> bool" where
  "h2_matches h n \<longleftrightarrow>
     is_tag (str ''h2'') n \<and> (case node_string n of None \<Rightarrow> False | Some s \<Rightarrow> contains h s)"

text \<open>
  Lines 34 to 37 of \<^verbatim>\<open>readTable\<close>: the table it reads, as its position among the
  descendants of the document. \<^verbatim>\<open>find\<close> returns \<^verbatim>\<open>None\<close> when nothing matches, so
  without a heading \<^verbatim>\<open>.findNext\<close> raises; \<^verbatim>\<open>findNext\<close> looks at everything after the
  heading in document order.
\<close>

definition locate_table :: "node \<Rightarrow> ustr option \<Rightarrow> error + nat option" where
  "locate_table soup search_string =
     (case search_string of
        None \<Rightarrow> Inr (first_index (is_tag (str ''table'')) (descendants soup))
      | Some h \<Rightarrow>
          (case first_index (h2_matches h) (descendants soup) of
             None \<Rightarrow> Inl AttributeError
           | Some i \<Rightarrow>
               Inr (map_option (\<lambda>j. Suc i + j)
                      (first_index (is_tag (str ''table'')) (drop (Suc i) (descendants soup))))))"

definition is_junk :: "node \<Rightarrow> bool" where
  "is_junk n \<longleftrightarrow> is_tag (str ''tr'') n \<and> has_class (str ''bottom-sort'') n"

text \<open>
  \<^verbatim>\<open>readTable(url, search_string)\<close>. \<open>getSoup\<close> is the fetch of a page, a parameter.
  The result is (headers, data, soup); the message printed for a row whose length
  differs from the header's is no part of it. A position that \<open>locate_table\<close> returns is
  a position of the document, so that \<open>descendants soup ! i\<close> is the table found.
\<close>

definition readTable ::
  "(ustr \<Rightarrow> node) \<Rightarrow> ustr \<Rightarrow> ustr option \<Rightarrow> error + (node list \<times> node list list \<times> node)" where
  "readTable getSoup url search_string =
     (let soup = getSoup url in
      case locate_table soup search_string of
        Inl e \<Rightarrow> Inl e
      | Inr None \<Rightarrow> Inl AttributeError
      | Inr (Some i) \<Rightarrow>
          (let root = decompose_all is_junk (descendants soup ! i);
               soup' = update_descendant i (decompose_all is_junk) soup
           in case find_tag (is_tag (str ''thead'')) root of
                None \<Rightarrow> Inl AttributeError
              | Some thead \<Rightarrow>
                  (case find_tag (is_tag (str ''tbody'')) root of
                     None \<Rightarrow> Inl AttributeError
                   | Some tbody \<Rightarrow>
                       Inr (find_all (is_tag (str ''th'')) thead,
                            map (find_all (is_tag (str ''td''))) (find_all (is_tag (str ''tr'')) tbody),
                            soup'))))"

section \<open>Field parsers\<close>

text \<open>\<^verbatim>\<open>x.attr\<close> on the result of a \<^verbatim>\<open>find\<close>: \<^verbatim>\<open>None\<close> has no attributes.\<close>

definition found :: "'a option \<Rightarrow> error + 'a" where
  "found r = (case r of None \<Rightarrow> Inl AttributeError | Some x \<Rightarrow> Inr x)"

definition parseSymbolTag :: "node \<Rightarrow> error + (ustr \<times> ustr \<times> ustr)" where
  "parseSymbolTag tag =
     ebind (found (find_tag (\<lambda>n. is_tag (str ''div'') n \<and> has_class (str ''ticker-area'') n) tag))
       (\<lambda>t. let symbol = node_text t in
     ebind (found (find_tag (is_tag (str ''a'')) tag))
       (\<lambda>a.
     ebind (py_index (split_char 47 (get_default a (str ''href'') [])) 2)
       (\<lambda>part. let exchange = strip part in
     ebind (found (find_tag (\<lambda>n. is_tag (str ''div'') n \<and> has_class (str ''title-area'') n) tag))
       (\<lambda>c. let company = node_text c in
     Inr (symbol, company, exchange)))))"

text \<open>
  \<^verbatim>\<open>re.match(prefix + '(' + cls + '+)', s)\<close> with a literal prefix and a character class:
  group 1, the longest run of class characters after the prefix.
\<close>

definition re_match_run :: "ustr \<Rightarrow> (nat \<Rightarrow> bool) \<Rightarrow> ustr \<Rightarrow> ustr option" where
  "re_match_run pre cls s =
     (if take (length pre) s = pre \<and> takeWhile cls (drop (length pre) s) \<noteq> []
      then Some (takeWhile cls (drop (length pre) s)) else None)"

definition parseBrokerageTag :: "node \<Rightarrow> error + (ustr \<times> ustr)" where
  "parseBrokerageTag tag =
     ebind (found (find_tag (is_tag (str ''a'')) tag))
       (\<lambda>a.
     (case map_of (tag_attrs a) (str ''href'') of
        None \<Rightarrow> Inl TypeError
      | Some href \<Rightarrow>
          ebind (found (re_match_run (str ''/ratings/by-issuer/'') (\<lambda>c. c = 45 \<or> is_word c) href))
            (\<lambda>g. let brokerage_code = py_remove (str ''-stock-recommendations'') g;
                     brokerage = node_text a
                 in Inr (brokerage, brokerage_code))))"

definition parseAnalystTag :: "node \<Rightarrow> ustr option" where
  "parseAnalystTag tag = map_option (\<lambda>a. strip (node_text a)) (find_tag (is_tag (str ''a'')) tag)"

definition parsePriceTargetTag :: "node \<Rightarrow> error + pyfloat" where
  "parsePriceTargetTag tag =
     ebind (py_index (split_char arrow (node_text tag)) (- 1))
       (\<lambda>pt. py_float (strip (py_remove [44] (py_remove [36] pt))))"

definition parseRatingTag :: "node \<Rightarrow> error + (ustr \<times> int)" where
  "parseRatingTag tag =
     ebind (py_index (split_char arrow (node_text tag)) (- 1))
       (\<lambda>seg. let rating = strip seg in
     ebind (py_int (get_default tag (str ''data-sort-value'') (str ''-1'')))
       (\<lambda>rating_code. Inr (rating, rating_code)))"

definition parseDateTag :: "node \<Rightarrow> error + ustr" where
  "parseDateTag tag = ebind (strptime_mdY (node_text tag)) (\<lambda>d. Inr (strftime_Ymd d))"


section \<open>Records and the Dataset Builder: \<^verbatim>\<open>buildDataFrame\<close>\<close>

text \<open>
  The values of a record's fields, and a record: a Python \<^verbatim>\<open>dict\<close>, an association
  list with distinct keys in insertion order. The missing value of pandas, \<^verbatim>\<open>NaN\<close>, is
  \<open>VFloat NaN\<close>.
\<close>

datatype pyval = VStr ustr | VInt int | VFloat pyfloat | VNone

type_synonym pydict = "(ustr \<times> pyval) list"

text \<open>A pandas \<^verbatim>\<open>DataFrame\<close>: the column labels and the rows, one cell per column.\<close>

record dataframe =
  columns :: "ustr list"
  rows :: "pyval list list"

text \<open>The elements of \<open>ys\<close> that are new, appended to \<open>xs\<close> in their order.\<close>

fun add_new :: "'a list \<Rightarrow> 'a list \<Rightarrow> 'a list" where
  "add_new xs [] = xs"
| "add_new xs (y # ys) = (if y \<in> set xs then add_new xs ys else add_new (xs @ [y]) ys)"

text \<open>The value of the field \<open>c\<close> in a row made from the record \<open>d\<close>: a missing key gives
  \<^verbatim>\<open>NaN\<close>.\<close>

definition field :: "pydict \<Rightarrow> ustr \<Rightarrow> pyval" where
  "field d c = (case map_of d c of None \<Rightarrow> VFloat NaN | Some v \<Rightarrow> v)"

text \<open>
  \<^verbatim>\<open>pd.DataFrame(data)\<close> for a list of dictionaries: the columns are the keys in the
  order of their first appearance, and every record gives one row.
\<close>

definition frame_columns :: "pydict list \<Rightarrow> ustr list" where
  "frame_columns data = foldl (\<lambda>cs d. add_new cs (map fst d)) [] data"

definition DataFrame :: "pydict list \<Rightarrow> dataframe" where
  "DataFrame data =
     \<lparr>columns = frame_columns data,
      rows = map (\<lambda>d. map (field d) (frame_columns data)) data\<rparr>"

text \<open>\<^verbatim>\<open>df.drop([k], axis=1, errors='ignore', inplace=True)\<close>\<close>

definition drop_column :: "ustr \<Rightarrow> dataframe \<Rightarrow> dataframe" where
  "drop_column k df =
     \<lparr>columns = filter (\<lambda>c. c \<noteq> k) (columns df),
      rows = map (\<lambda>r. map snd (filter (\<lambda>cv. fst cv \<noteq> k) (zip (columns df) r))) (rows df)\<rparr>"

text \<open>The cell of row \<open>r\<close> in column \<open>k\<close> of \<open>df\<close>.\<close>

definition cell :: "dataframe \<Rightarrow> pyval list \<Rightarrow> ustr \<Rightarrow> pyval" where
  "cell df r k = (case map_of (zip (columns df) r) k of None \<Rightarrow> VFloat NaN | Some v \<Rightarrow> v)"

text \<open>
  \<^verbatim>\<open>row.values.astype(str)\<close> on one cell. A string stays as it is (numpy drops NUL
  characters at its end, and strings are taken not to end with one); what numpy makes
  of a number, \<^verbatim>\<open>None\<close> or \<^verbatim>\<open>NaN\<close> is the parameter \<open>str_of\<close>.
\<close>

definition astype_str :: "(pyval \<Rightarrow> ustr) \<Rightarrow> pyval \<Rightarrow> ustr" where
  "astype_str str_of v = (case v of VStr s \<Rightarrow> s | _ \<Rightarrow> str_of v)"

text \<open>\<^verbatim>\<open>sep.join(xs)\<close>\<close>

fun join :: "ustr \<Rightarrow> ustr list \<Rightarrow> ustr" where
  "join sep [] = []"
| "join sep [x] = x"
| "join sep (x # y # ys) = x @ sep @ join sep (y # ys)"

definition key_columns :: "ustr list" where
  "key_columns = [str ''date'', str ''symbol'', str ''brokerage'']"

text \<open>
  Line 68 of \<^verbatim>\<open>buildDataFrame\<close>:
  \<^verbatim>\<open>df[['date', 'symbol', 'brokerage']].apply(lambda row: '_'.join(row.values.astype(str)), axis=1)\<close>
  on a frame that has the three columns.
\<close>

definition uid_index :: "(pyval \<Rightarrow> ustr) \<Rightarrow> dataframe \<Rightarrow> ustr list" where
  "uid_index str_of df =
     map (\<lambda>r. join (str ''_'') (map (\<lambda>k. astype_str str_of (cell df r k)) key_columns)) (rows df)"

text \<open>
  \<^verbatim>\<open>buildDataFrame(data)\<close>. Selecting the columns \<^verbatim>\<open>['date', 'symbol', 'brokerage']\<close>
  raises \<^verbatim>\<open>KeyError\<close> when one of them is no column, and \<^verbatim>\<open>df.insert\<close> raises
  \<^verbatim>\<open>ValueError\<close> when the frame has a column \<^verbatim>\<open>uid\<close> already.
\<close>

definition buildDataFrame :: "(pyval \<Rightarrow> ustr) \<Rightarrow> pydict list \<Rightarrow> error + dataframe" where
  "buildDataFrame str_of data =
     (let df = drop_column (str ''brokerage_code'') (DataFrame data)
      in if \<not> set key_columns \<subseteq> set (columns df) then Inl KeyError
         else
           (let index = uid_index str_of df
            in if str ''uid'' \<in> set (columns df) then Inl ValueError
               else Inr \<lparr>columns = str ''uid'' # columns df,
                         rows = map (\<lambda>(u, r). VStr u # r) (zip index (rows df))\<rparr>))"

section \<open>Row Assembler and workflows\<close>

definition opt_str :: "ustr option \<Rightarrow> pyval" where
  "opt_str a = (case a of None \<Rightarrow> VNone | Some s \<Rightarrow> VStr s)"

text \<open>The dictionary both \<^verbatim>\<open>processRow\<close> functions return.\<close>

definition rating_record ::
  "ustr \<Rightarrow> ustr \<Rightarrow> ustr \<Rightarrow> ustr \<Rightarrow> ustr \<Rightarrow> ustr \<Rightarrow> ustr option \<Rightarrow> pyfloat \<Rightarrow> ustr \<Rightarrow> int \<Rightarrow> pydict" where
  "rating_record symbol date exchange action brokerage brokerage_code analyst price_target
     rating rating_code =
     [(str ''symbol'', VStr symbol),
      (str ''date'', VStr date),
      (str ''exchange'', VStr exchange),
      (str ''action'', VStr action),
      (str ''brokerage'', VStr brokerage),
      (str ''brokerage_code'', VStr brokerage_code),
      (str ''analyst'', opt_str analyst),
      (str ''price_target'', VFloat price_target),
      (str ''rating'', VStr rating),
      (str ''rating_code'', VInt rating_code)]"

text \<open>\<^verbatim>\<open>processRow\<close> of \<^verbatim>\<open>getDailyRatingsTable\<close>, for the row \<open>row\<close> and the date \<open>date\<close>.\<close>

definition processRow_daily :: "ustr \<Rightarrow> node list \<Rightarrow> error + pydict" where
  "processRow_daily date row =
     ebind (py_index row 0) (\<lambda>c0.
     ebind (parseSymbolTag c0) (\<lambda>(symbol, company, exchange).
     ebind (py_index row 1) (\<lambda>c1. let action = strip (node_text c1) in
     ebind (py_index row 2) (\<lambda>c2.
     ebind (parseBrokerageTag c2) (\<lambda>(brokerage, brokerage_code).
     ebind (py_index row 3) (\<lambda>c3. let analyst = parseAnalystTag c3 in
     ebind (py_index row 5) (\<lambda>c5.
     ebind (parsePriceTargetTag c5) (\<lambda>price_target.
     ebind (py_index row 6) (\<lambda>c6.
     ebind (parseRatingTag c6) (\<lambda>(rating, rating_code).
     Inr (rating_record symbol date exchange action brokerage brokerage_code analyst
            price_target rating rating_code)))))))))))"

text \<open>\<^verbatim>\<open>processRow\<close> of \<^verbatim>\<open>getSymbolRatingsTable\<close>, for the symbol and its exchange.\<close>

definition processRow_symbol :: "ustr \<Rightarrow> ustr \<Rightarrow> node list \<Rightarrow> error + pydict" where
  "processRow_symbol symbol exchange row =
     ebind (py_index row 0) (\<lambda>c0.
     ebind (parseDateTag c0) (\<lambda>date.
     ebind (py_index row 1) (\<lambda>c1.
     ebind (parseBrokerageTag c1) (\<lambda>(brokerage, brokerage_code).
     ebind (py_index row 2) (\<lambda>c2. let analyst = parseAnalystTag c2 in
     ebind (py_index row 3) (\<lambda>c3. let action = strip (node_text c3) in
     ebind (py_index row 4) (\<lambda>c4.
     ebind (parseRatingTag c4) (\<lambda>(rating, rating_code).
     ebind (py_index row 5) (\<lambda>c5.
     ebind (parsePriceTargetTag c5) (\<lambda>price_target.
     Inr (rating_record symbol date exchange action brokerage brokerage_code analyst
            price_target rating rating_code)))))))))))"

text \<open>
  The loop of both workflows:
  \<^verbatim>\<open>for row in data: try: row_data.append(processRow()) except Exception: pass\<close>.
  \<open>row_data\<close> is the accumulator.
\<close>

fun row_loop :: "('r \<Rightarrow> error + 'd) \<Rightarrow> 'd list \<Rightarrow> 'r list \<Rightarrow> 'd list" where
  "row_loop processRow row_data [] = row_data"
| "row_loop processRow row_data (row # data) =
     (case processRow row of
        Inl e \<Rightarrow> row_loop processRow row_data data
      | Inr d \<Rightarrow> row_loop processRow (row_data @ [d]) data)"

definition BASE_URL :: ustr where
  "BASE_URL = str ''https://www.marketbeat.com''"

text \<open>The filter of \<^verbatim>\<open>soup.find("div", string=DATE_RE)\<close>.\<close>

definition date_div :: "node \<Rightarrow> bool" where
  "date_div n \<longleftrightarrow>
     is_tag (str ''div'') n \<and>
     (case node_string n of None \<Rightarrow> False | Some s \<Rightarrow> date_re_search s \<noteq> None)"

text \<open>
  Lines 181 to 187 of \<^verbatim>\<open>getDailyRatingsTable\<close>: the date of the batch. \<open>today\<close> is
  \<^verbatim>\<open>datetime.today().strftime(DATE_FORMAT)\<close>, a parameter.
\<close>

definition page_date :: "ustr \<Rightarrow> node \<Rightarrow> error + ustr" where
  "page_date today soup =
     (case find_tag date_div soup of
        None \<Rightarrow> Inr today
      | Some tag \<Rightarrow>
          ebind (found (date_re_search (node_text tag)))
            (\<lambda>g. ebind (strptime_mdY g) (\<lambda>d. Inr (strftime_Ymd d))))"

text \<open>\<^verbatim>\<open>getDailyRatingsTable()\<close>\<close>

definition getDailyRatingsTable ::
  "(pyval \<Rightarrow> ustr) \<Rightarrow> (ustr \<Rightarrow> node) \<Rightarrow> ustr \<Rightarrow> error + dataframe" where
  "getDailyRatingsTable str_of getSoup today =
     (let url = BASE_URL @ str ''/ratings/us/'' in
      ebind (readTable getSoup url None) (\<lambda>(headers, data, soup).
      ebind (page_date today soup) (\<lambda>date.
      buildDataFrame str_of (row_loop (processRow_daily date) [] data))))"

text \<open>
  Lines 241 to 246 of \<^verbatim>\<open>getSymbolRatingsTable\<close>: the overview page of the symbol
  gives the exchange and the link to the ratings page. \<^verbatim>\<open>re.match\<close> on the \<^verbatim>\<open>None\<close> of
  a missing \<^verbatim>\<open>href\<close> raises \<^verbatim>\<open>TypeError\<close>.
\<close>

definition ratings_link :: "(ustr \<Rightarrow> node) \<Rightarrow> ustr \<Rightarrow> error + (ustr \<times> ustr)" where
  "ratings_link getSoup symbol =
     (let main_url = BASE_URL @ str ''/stocks/NASDAQ/'' @ symbol;
          soup = getSoup main_url
      in
      ebind (found (find_tag (\<lambda>n. is_tag (str ''li'') n \<and> has_id (str ''liAnalystRatings'') n) soup))
        (\<lambda>li.
      ebind (found (find_tag (is_tag (str ''a'')) li)) (\<lambda>a.
      (case map_of (tag_attrs a) (str ''href'') of
         None \<Rightarrow> Inl TypeError
       | Some href \<Rightarrow>
           ebind (found (re_match_run (str ''/stocks/'') is_word href))
             (\<lambda>exchange. Inr (exchange, href))))))"

text \<open>\<^verbatim>\<open>getSymbolRatingsTable(symbol)\<close>\<close>

definition getSymbolRatingsTable ::
  "(pyval \<Rightarrow> ustr) \<Rightarrow> (ustr \<Rightarrow> node) \<Rightarrow> ustr \<Rightarrow> error + dataframe" where
  "getSymbolRatingsTable str_of getSoup symbol =
     ebind (ratings_link getSoup symbol) (\<lambda>(exchange, href).
     (let url = BASE_URL @ href in
      ebind (readTable getSoup url (Some (str ''Ratings History''))) (\<lambda>(headers, data, soup2).
      buildDataFrame str_of (row_loop (processRow_symbol symbol exchange) [] data))))"

section \<open>Notions used in the statements\<close>

text \<open>The text after the final occurrence of \<open>c\<close>; the whole text when \<open>c\<close> does not occur.\<close>

definition after_final :: "nat \<Rightarrow> ustr \<Rightarrow> ustr" where
  "after_final c s = rev (takeWhile (\<lambda>x. x \<noteq> c) (rev s))"


text \<open>
  The characters that occur in the strings \<^verbatim>\<open>int\<close> reads (digits, underscore, signs,
  whitespace) and in those \<^verbatim>\<open>float\<close> reads (in addition the point and the letters of
  an exponent, of \<^verbatim>\<open>infinity\<close> and of \<^verbatim>\<open>nan\<close>).
\<close>

definition int_char :: "nat \<Rightarrow> bool" where
  "int_char c \<longleftrightarrow> is_digit c \<or> c = 95 \<or> c = 43 \<or> c = 45 \<or> is_space c"


text \<open>
  The records of the rows on which \<open>processRow\<close> does not raise, in the order of the
  rows.
\<close>

definition survivors :: "('r \<Rightarrow> error + 'd) \<Rightarrow> 'r list \<Rightarrow> 'd list" where
  "survivors processRow data =
     map (\<lambda>row. projr (processRow row)) (filter (\<lambda>row. \<not> isl (processRow row)) data)"

text \<open>The uid of a record: date, symbol and brokerage joined by \<^verbatim>\<open>_\<close>.\<close>

definition record_uid :: "(pyval \<Rightarrow> ustr) \<Rightarrow> pydict \<Rightarrow> ustr" where
  "record_uid str_of d =
     astype_str str_of (field d (str ''date'')) @ str ''_'' @
     astype_str str_of (field d (str ''symbol'')) @ str ''_'' @
     astype_str str_of (field d (str ''brokerage''))"

text \<open>The columns of the records without \<^verbatim>\<open>brokerage_code\<close>.\<close>

definition out_columns :: "pydict list \<Rightarrow> ustr list" where
  "out_columns data = filter (\<lambda>c. c \<noteq> str ''brokerage_code'') (frame_columns data)"

text \<open>The keys of the dictionary of \<^verbatim>\<open>processRow\<close>, and the schema of a Dataset after
  \<^verbatim>\<open>uid\<close>.\<close>

definition record_keys :: "ustr list" where
  "record_keys =
     [str ''symbol'', str ''date'', str ''exchange'', str ''action'', str ''brokerage'',
      str ''brokerage_code'', str ''analyst'', str ''price_target'', str ''rating'',
      str ''rating_code'']"

definition dataset_columns :: "ustr list" where
  "dataset_columns =
     [str ''symbol'', str ''date'', str ''exchange'', str ''action'', str ''brokerage'',
      str ''analyst'', str ''price_target'', str ''rating'', str ''rating_code'']"

definition is_rating_record :: "pydict \<Rightarrow> bool" where
  "is_rating_record d \<longleftrightarrow> map fst d = record_keys"

text \<open>The row of a Dataset that a record gives.\<close>

definition dataset_row :: "(pyval \<Rightarrow> ustr) \<Rightarrow> pydict \<Rightarrow> pyval list" where
  "dataset_row str_of d = VStr (record_uid str_of d) # map (field d) dataset_columns"

text \<open>The records of a Dataset, \<^verbatim>\<open>df.to_dict('records')\<close>: what a second run of the
  Dataset Builder on a built Dataset receives.\<close>

definition to_records :: "dataframe \<Rightarrow> pydict list" where
  "to_records df = map (\<lambda>r. zip (columns df) r) (rows df)"

section \<open>Sample pages\<close>

definition el :: "string \<Rightarrow> (string \<times> string) list \<Rightarrow> node list \<Rightarrow> node" where
  "el name attrs cs = Elem (str name) (map (\<lambda>(k, v). (str k, str v)) attrs) cs"

definition tx :: "string \<Rightarrow> node" where
  "tx s = Text (str s)"

definition symbol_cell :: "string \<Rightarrow> node" where
  "symbol_cell ticker =
     el ''td'' []
       [el ''div'' [(''class'', ''ticker-area'')] [tx ticker],
        el ''a'' [(''href'', ''/stocks/NASDAQ/'' @ ticker @ ''/'')]
          [el ''div'' [(''class'', ''title-area'')] [tx ''Company'']]]"

definition brokerage_cell :: node where
  "brokerage_cell =
     el ''td'' [] [el ''a'' [(''href'', ''/ratings/by-issuer/34/'')] [tx ''Bank_of_X'']]"

definition price_cell :: node where
  "price_cell = el ''td'' [] [tx ''$10.00 '', Text [arrow], tx '' $12.50'']"

definition rating_cell :: node where
  "rating_cell = el ''td'' [(''data-sort-value'', ''3'')] [tx ''Hold '', Text [arrow], tx '' Buy '']"

text \<open>A row of the daily table, and one whose brokerage cell has no link.\<close>

definition daily_row :: "string \<Rightarrow> node list" where
  "daily_row ticker =
     [symbol_cell ticker, el ''td'' [] [tx '' Upgraded by ''], brokerage_cell, el ''td'' [] [],
      el ''td'' [] [tx ''$11.00''], price_cell, rating_cell]"

definition bad_row :: "node list" where
  "bad_row =
     [symbol_cell ''BAD'', el ''td'' [] [tx ''Upgraded by''], el ''td'' [] [tx ''Bank''],
      el ''td'' [] [], el ''td'' [] [tx ''$11.00''], price_cell, rating_cell]"

definition table_of :: "node list list \<Rightarrow> node" where
  "table_of rs =
     el ''table'' []
       [el ''thead'' [] [el ''tr'' [] [el ''th'' [] [tx ''Company'']]],
        el ''tbody'' [] (map (el ''tr'' []) rs)]"

definition page_of :: "node list \<Rightarrow> node" where
  "page_of ns = el ''[document]'' [] ns"



definition rating_cell_plain :: node where
  "rating_cell_plain = el ''td'' [] [tx '' Neutral'']"

definition rating_cell_decimal :: node where
  "rating_cell_decimal = el ''td'' [(''data-sort-value'', ''3.5'')] [tx ''Buy'']"

text \<open>A row of the daily table whose rating cell has a sort value that is no integer.\<close>

definition unrated_row :: "node list" where
  "unrated_row =
     [symbol_cell ''DDD'', el ''td'' [] [tx ''Upgraded by''], brokerage_cell, el ''td'' [] [],
      el ''td'' [] [tx ''$11.00''], price_cell, rating_cell_decimal]"

text \<open>
  A conversion of cells that are no strings, a site that answers every request with
  the same page, and the records and Dataset rows that the sample rows give.
\<close>

definition no_str :: "pyval \<Rightarrow> ustr" where
  "no_str v = []"

definition serve :: "node \<Rightarrow> ustr \<Rightarrow> node" where
  "serve page url = page"

definition sample_record :: "string \<Rightarrow> string \<Rightarrow> pydict" where
  "sample_record date ticker =
     rating_record (str ticker) (str date) (str ''NASDAQ'') (str ''Upgraded by'') (str ''Bank_of_X'')
       (str ''34'') None (Fin (25 / 2)) (str ''Buy'') 3"

definition sample_row :: "string \<Rightarrow> string \<Rightarrow> pyval list" where
  "sample_row date ticker =
     [VStr (str date @ str ''_'' @ str ticker @ str ''_Bank_of_X''), VStr (str ticker), VStr (str date),
      VStr (str ''NASDAQ''), VStr (str ''Upgraded by''), VStr (str ''Bank_of_X''), VNone,
      VFloat (Fin (25 / 2)), VStr (str ''Buy''), VInt 3]"

text \<open>Pages of the daily workflow.\<close>

definition page_mixed :: node where
  "page_mixed =
     page_of [el ''div'' [] [tx ''Ratings (1/2/2020)''],
              table_of [daily_row ''AAA'', bad_row, daily_row ''CCC'']]"

definition page_single_bad :: node where
  "page_single_bad = page_of [table_of [bad_row]]"

text \<open>The pages of the symbol workflow: the overview page and the ratings page.\<close>

definition symbol_row :: "string \<Rightarrow> node list" where
  "symbol_row date =
     [el ''td'' [] [tx date], brokerage_cell, el ''td'' [] [el ''a'' [] [tx '' Jane Doe '']],
      el ''td'' [] [tx ''Upgrade''], rating_cell, price_cell]"

definition overview_page :: node where
  "overview_page =
     page_of [el ''ul'' []
       [el ''li'' [(''id'', ''liAnalystRatings'')]
          [el ''a'' [(''href'', ''/stocks/NASDAQ/AAA/price-target/'')] [tx ''Analyst Ratings'']]]]"

definition history_page :: node where
  "history_page =
     page_of [table_of [], el ''h2'' [] [tx ''AAA Ratings History''],
              table_of [symbol_row ''1/2/2020'', symbol_row ''13/45/2020'', symbol_row ''12/31/2019'']]"

definition sample_site :: "ustr \<Rightarrow> node" where
  "sample_site url =
     (if url = BASE_URL @ str ''/stocks/NASDAQ/AAA'' then overview_page else history_page)"

definition history_row :: "string \<Rightarrow> pyval list" where
  "history_row date =
     [VStr (str date @ str ''_AAA_Bank_of_X''), VStr (str ''AAA''), VStr (str date),
      VStr (str ''NASDAQ''), VStr (str ''Upgrade''), VStr (str ''Bank_of_X''), VStr (str ''Jane Doe''),
      VFloat (Fin (25 / 2)), VStr (str ''Buy''), VInt 3]"

text \<open>Ratings pages on which the heading is missing, follows the table, is written in
  lower case, or is split over two nodes.\<close>

definition page_no_heading :: node where
  "page_no_heading = page_of [el ''h2'' [] [tx ''Price Targets''], table_of [symbol_row ''1/2/2020'']]"

definition page_table_before :: node where
  "page_table_before =
     page_of [table_of [symbol_row ''1/2/2020''], el ''h2'' [] [tx ''AAA Ratings History'']]"

definition page_lowercase :: node where
  "page_lowercase = page_of [el ''h2'' [] [tx ''ratings history''], table_of [symbol_row ''1/2/2020'']]"

definition page_split_heading :: node where
  "page_split_heading =
     page_of [el ''h2'' [] [tx ''Ratings '', el ''b'' [] [tx ''History'']],
              table_of [symbol_row ''1/2/2020'']]"

definition site_no_heading :: "ustr \<Rightarrow> node" where
  "site_no_heading url =
     (if url = BASE_URL @ str ''/stocks/NASDAQ/AAA'' then overview_page else page_no_heading)"

text \<open>Daily pages: the date marker in a paragraph, every row malformed, no row at all.\<close>

definition page_p_date :: node where
  "page_p_date = page_of [el ''p'' [] [tx ''(1/2/2020)''], table_of [daily_row ''AAA'']]"

definition page_all_bad :: node where
  "page_all_bad =
     page_of [el ''div'' [] [tx ''Ratings (1/2/2020)''], table_of [bad_row, [], unrated_row]]"

definition page_no_rows :: node where
  "page_no_rows = page_of [el ''div'' [] [tx ''Ratings (1/2/2020)''], table_of []]"

text \<open>Records for the Dataset Builder and the Datasets they give.\<close>

definition sample_records :: "pydict list" where
  "sample_records = [sample_record ''2020-01-02'' ''AAA'', sample_record ''2020-01-03'' ''CCC'']"

definition sample_frame :: dataframe where
  "sample_frame =
     \<lparr>columns = str ''uid'' # dataset_columns,
      rows = [sample_row ''2020-01-02'' ''AAA'', sample_row ''2020-01-03'' ''CCC'']\<rparr>"

definition frame_mixed :: dataframe where
  "frame_mixed =
     \<lparr>columns = str ''uid'' # dataset_columns,
      rows = [sample_row ''2020-01-02'' ''AAA'', sample_row ''2020-01-02'' ''CCC'']\<rparr>"

text \<open>A daily page with an advertisement row that holds a date marker, and the page
  without that row.\<close>

definition page_advert :: node where
  "page_advert =
     page_of
       [el ''table'' []
          [el ''thead'' [] [el ''tr'' [] [el ''th'' [] [tx ''Company'']]],
           el ''tbody'' []
             [el ''tr'' [(''class'', ''ad bottom-sort'')]
                [el ''td'' [] [el ''div'' [] [tx ''(1/2/2020)'']]],
              el ''tr'' [] (daily_row ''AAA'')]]]"

definition page_one_row :: node where
  "page_one_row = page_of [table_of [daily_row ''AAA'']]"

section \<open>Properties of the string functions\<close>

lemma split_char_nonempty: "split_char c s \<noteq> []"
  by (induction s) (auto split: list.splits)

lemma split_char_no_sep: "c \<notin> set s \<Longrightarrow> split_char c s = [s]"
  by (induction s) auto

lemma split_char_append: "split_char c (pre @ c # seg) = split_char c pre @ split_char c seg"
  by (induction pre) (auto simp: split_char_nonempty split: list.splits)

lemma last_split_char_append: "last (split_char c (pre @ c # seg)) = last (split_char c seg)"
  by (simp add: split_char_append split_char_nonempty)

lemma py_index_last: "xs \<noteq> [] \<Longrightarrow> py_index xs (- 1) = Inr (last xs)"
  by (cases xs rule: rev_cases) (auto simp: py_index_def nat_add_distrib)


lemma last_segment: "py_index (split_char c s) (- 1) = Inr (last (split_char c s))"
  by (simp add: py_index_last split_char_nonempty)

lemma last_split_char: "last (split_char c s) = after_final c s"
proof (cases "c \<in> set s")
  case False
  then have "takeWhile (\<lambda>x. x \<noteq> c) (rev s) = rev s"
    by (intro takeWhile_eq_all_conv[THEN iffD2]) auto
  then have "after_final c s = s" unfolding after_final_def by (simp only: rev_rev_ident)
  with False show ?thesis by (simp add: split_char_no_sep)
next
  case True
  then obtain pre seg where s: "s = pre @ c # seg" and n: "c \<notin> set seg"
    by (auto dest: split_list_last)
  have "takeWhile (\<lambda>x. x \<noteq> c) (rev seg @ c # rev pre) = rev seg"
    using n by (auto simp: takeWhile_tail)
  then show ?thesis
    using n by (simp add: s last_split_char_append split_char_no_sep after_final_def)
qed

lemma after_final_append: "c \<notin> set seg \<Longrightarrow> after_final c (pre @ c # seg) = seg"
  using last_split_char_append[of c pre seg] by (simp add: last_split_char[symmetric] split_char_no_sep)

lemma after_final_none: "c \<notin> set s \<Longrightarrow> after_final c s = s"
  using last_split_char[of c s] by (simp add: split_char_no_sep)

lemma dropWhile_keeps: "x \<in> set xs \<Longrightarrow> \<not> P x \<Longrightarrow> x \<in> set (dropWhile P xs)"
  by (induction xs) auto

lemma strip_keeps: "c \<in> set s \<Longrightarrow> \<not> is_space c \<Longrightarrow> c \<in> set (strip s)"
  by (simp add: strip_def dropWhile_keeps)


section \<open>Properties of \<^verbatim>\<open>int\<close> and \<^verbatim>\<open>float\<close>\<close>

lemma digitpart_chars: "digitpart s \<Longrightarrow> c \<in> set s \<Longrightarrow> is_digit c \<or> c = 95"
  by (induction s rule: digitpart.induct) (auto split: if_splits)



lemma py_int_chars:
  assumes "py_int s = Inr n" and "c \<in> set s"
  shows "int_char c"
proof (rule ccontr)
  assume n: "\<not> int_char c"
  then have "c \<in> set (strip s)" using assms(2) by (simp add: strip_keeps int_char_def)
  with assms(1) n show False
    by (auto simp: py_int_def int_char_def split: list.splits if_splits dest: digitpart_chars)
qed

lemma py_int_foreign: "c \<in> set s \<Longrightarrow> \<not> int_char c \<Longrightarrow> py_int s = Inl ValueError"
  using py_int_chars[of s _ c] by (cases "py_int s") (auto simp: py_int_def split: list.splits if_splits)










section \<open>Properties of the field parsers\<close>


lemma parseRatingTag_eq:
  "parseRatingTag tag =
     (case py_int (get_default tag (str ''data-sort-value'') (str ''-1'')) of
        Inl e \<Rightarrow> Inl e
      | Inr n \<Rightarrow> Inr (strip (after_final arrow (node_text tag)), n))"
  by (simp add: parseRatingTag_def ebind_def last_segment last_split_char split: sum.splits)

lemma py_int_default: "py_int (str ''-1'') = Inr (- 1)"
  by (simp add: py_int_def str_def strip_def is_space_def digits_value_def is_digit_def)

lemma py_int_three: "py_int (str ''3'') = Inr 3"
  by (simp add: py_int_def str_def strip_def is_space_def digits_value_def is_digit_def)

lemma processRow_daily_rating_error:
  "py_index row 6 = Inr tag \<Longrightarrow> parseRatingTag tag = Inl e \<Longrightarrow> \<exists>e'. processRow_daily date row = Inl e'"
  by (auto simp: processRow_daily_def ebind_def Let_def split: sum.splits prod.splits)

lemma processRow_symbol_rating_error:
  "py_index row 4 = Inr tag \<Longrightarrow> parseRatingTag tag = Inl e \<Longrightarrow>
   \<exists>e'. processRow_symbol symbol exchange row = Inl e'"
  by (auto simp: processRow_symbol_def ebind_def Let_def split: sum.splits prod.splits)

section \<open>Properties of the Dataset Builder\<close>

lemma set_add_new: "set (add_new xs ys) = set xs \<union> set ys"
  by (induction xs ys rule: add_new.induct) auto

lemma distinct_add_new: "distinct xs \<Longrightarrow> distinct (add_new xs ys)"
  by (induction xs ys rule: add_new.induct) auto

lemma add_new_subset: "set ys \<subseteq> set xs \<Longrightarrow> add_new xs ys = xs"
  by (induction xs ys rule: add_new.induct) auto

lemma add_new_distinct: "distinct ys \<Longrightarrow> add_new xs ys = xs @ filter (\<lambda>y. y \<notin> set xs) ys"
  by (induction xs ys rule: add_new.induct) (auto intro: filter_cong)

lemma filter_add_new: "filter P (add_new xs ys) = add_new (filter P xs) (filter P ys)"
  by (induction xs ys rule: add_new.induct) auto

lemma foldl_add_new_distinct:
  "distinct cs \<Longrightarrow> distinct (foldl (\<lambda>cs d. add_new cs (map fst d)) cs data)"
  by (induction data arbitrary: cs) (auto simp: distinct_add_new)

lemma distinct_frame_columns: "distinct (frame_columns data)"
  by (simp add: frame_columns_def foldl_add_new_distinct)

lemma foldl_add_new_same:
  "\<forall>d\<in>set data. set (map fst d) \<subseteq> set cs \<Longrightarrow> foldl (\<lambda>cs d. add_new cs (map fst d)) cs data = cs"
  by (induction data arbitrary: cs) (auto simp: add_new_subset)

lemma frame_columns_uniform:
  assumes "data \<noteq> []" and "\<forall>d\<in>set data. map fst d = ks" and "distinct ks"
  shows "frame_columns data = ks"
proof -
  obtain d ds where d: "data = d # ds" using assms(1) by (cases data) auto
  have "add_new [] (map fst d) = ks" using assms d by (simp add: add_new_distinct)
  then show ?thesis using assms(2) d by (simp add: frame_columns_def foldl_add_new_same)
qed

lemma foldl_add_new_filter:
  "filter P (foldl (\<lambda>cs d. add_new cs (map fst d)) cs data) =
   foldl (\<lambda>cs d. add_new cs (map fst d)) (filter P cs) (map (filter (\<lambda>kv. P (fst kv))) data)"
proof (induction data arbitrary: cs)
  case Nil show ?case by simp
next
  case (Cons d data)
  have "map fst (filter (\<lambda>kv. P (fst kv)) d) = filter P (map fst d)"
    by (simp add: filter_map comp_def)
  then show ?case by (simp add: Cons filter_add_new)
qed

lemma frame_columns_filter:
  "frame_columns (map (filter (\<lambda>kv. P (fst kv))) data) = filter P (frame_columns data)"
  by (simp add: frame_columns_def foldl_add_new_filter)

lemma map_of_filter_key: "P k \<Longrightarrow> map_of (filter (\<lambda>kv. P (fst kv)) d) k = map_of d k"
  by (induction d) auto

lemma field_filter: "P k \<Longrightarrow> field (filter (\<lambda>kv. P (fst kv)) d) k = field d k"
  by (simp add: field_def map_of_filter_key)

lemma drop_row:
  "map snd (filter (\<lambda>cv. fst cv \<noteq> k) (zip cs (map f cs))) = map f (filter (\<lambda>c. c \<noteq> k) cs)"
  by (induction cs) auto

lemma dropped_frame:
  "drop_column k (DataFrame data) =
     \<lparr>columns = filter (\<lambda>c. c \<noteq> k) (frame_columns data),
      rows = map (\<lambda>d. map (field d) (filter (\<lambda>c. c \<noteq> k) (frame_columns data))) data\<rparr>"
  by (simp add: drop_column_def DataFrame_def drop_row)

lemma cell_of_row: "columns df = cs \<Longrightarrow> k \<in> set cs \<Longrightarrow> cell df (map f cs) k = f k"
  by (simp add: cell_def map_of_zip_map)

lemma uid_index_dropped:
  assumes "set key_columns \<subseteq> set (out_columns data)"
  shows "uid_index str_of (drop_column (str ''brokerage_code'') (DataFrame data)) =
         map (record_uid str_of) data"
proof -
  let ?df = "drop_column (str ''brokerage_code'') (DataFrame data)"
  have c: "columns ?df = out_columns data" by (simp add: dropped_frame out_columns_def)
  have r: "rows ?df = map (\<lambda>d. map (field d) (out_columns data)) data"
    by (simp add: dropped_frame out_columns_def)
  have "\<And>d k. k \<in> set key_columns \<Longrightarrow> cell ?df (map (field d) (out_columns data)) k = field d k"
    using assms c by (intro cell_of_row) auto
  then show ?thesis
    by (simp add: uid_index_def r key_columns_def record_uid_def)
qed

lemma zip_map_both:
  "map (\<lambda>(u, r). h u r) (zip (map f xs) (map g xs)) = map (\<lambda>x. h (f x) (g x)) xs"
  by (induction xs) auto

lemma buildDataFrame_eq:
  "buildDataFrame str_of data =
     (if \<not> set key_columns \<subseteq> set (out_columns data) then Inl KeyError
      else if str ''uid'' \<in> set (out_columns data) then Inl ValueError
      else Inr \<lparr>columns = str ''uid'' # out_columns data,
                rows = map (\<lambda>d. VStr (record_uid str_of d) # map (field d) (out_columns data)) data\<rparr>)"
proof -
  let ?df = "drop_column (str ''brokerage_code'') (DataFrame data)"
  have c: "columns ?df = out_columns data" by (simp add: dropped_frame out_columns_def)
  have r: "rows ?df = map (\<lambda>d. map (field d) (out_columns data)) data"
    by (simp add: dropped_frame out_columns_def)
  show ?thesis
  proof (cases "set key_columns \<subseteq> set (out_columns data)")
    case False
    then show ?thesis by (simp add: buildDataFrame_def Let_def c)
  next
    case True
    have z: "map (\<lambda>(u, r). VStr u # r) (zip (map (record_uid str_of) data) (rows ?df)) =
        map (\<lambda>d. VStr (record_uid str_of d) # map (field d) (out_columns data)) data"
      unfolding r by (rule zip_map_both)
    show ?thesis
      using True by (simp add: buildDataFrame_def Let_def c uid_index_dropped z)
  qed
qed

lemma build_no_records: "buildDataFrame str_of [] = Inl KeyError"
  by (simp add: buildDataFrame_eq out_columns_def frame_columns_def key_columns_def)

lemma distinct_record_keys: "distinct record_keys"
  by (simp add: record_keys_def str_def)

lemma out_columns_records:
  assumes "S \<noteq> []" and "\<forall>d\<in>set S. is_rating_record d"
  shows "out_columns S = dataset_columns"
proof -
  have "frame_columns S = record_keys"
    using assms by (intro frame_columns_uniform) (auto simp: is_rating_record_def distinct_record_keys)
  then show ?thesis by (simp add: out_columns_def record_keys_def dataset_columns_def str_def)
qed

lemma build_rating_records:
  assumes "S \<noteq> []" and "\<forall>d\<in>set S. is_rating_record d"
  shows "buildDataFrame str_of S =
           Inr \<lparr>columns = str ''uid'' # dataset_columns, rows = map (dataset_row str_of) S\<rparr>"
proof -
  have o: "out_columns S = dataset_columns" using assms by (rule out_columns_records)
  have k: "set key_columns \<subseteq> set dataset_columns"
    by (simp add: key_columns_def dataset_columns_def)
  have u: "str ''uid'' \<notin> set dataset_columns"
    by (simp add: dataset_columns_def str_def)
  show ?thesis using k u by (simp add: buildDataFrame_eq o dataset_row_def)
qed

section \<open>Properties of the Row Assembler\<close>

lemma survivors_Cons:
  "survivors f (row # data) =
     (case f row of Inl e \<Rightarrow> survivors f data | Inr d \<Rightarrow> d # survivors f data)"
  by (simp add: survivors_def split: sum.splits)

lemma survivors_Nil: "survivors f [] = []"
  by (simp add: survivors_def)

lemma row_loop_eq: "row_loop f acc data = acc @ survivors f data"
  by (induction data arbitrary: acc) (auto simp: survivors_Cons survivors_Nil split: sum.splits)

lemma survivors_append: "survivors f (xs @ ys) = survivors f xs @ survivors f ys"
  by (simp add: survivors_def)

lemma survivors_set: "d \<in> set (survivors f data) \<longleftrightarrow> (\<exists>r\<in>set data. f r = Inr d)"
  by (induction data) (auto simp: survivors_Cons survivors_Nil split: sum.splits)

lemma rating_record_keys: "is_rating_record (rating_record s d e a b c an p r rc)"
  by (simp add: is_rating_record_def rating_record_def record_keys_def)

lemma rating_record_date: "field (rating_record s d e a b c an p r rc) (str ''date'') = VStr d"
  by (simp add: rating_record_def field_def str_def)

lemma processRow_daily_record:
  "processRow_daily date row = Inr d \<Longrightarrow> is_rating_record d \<and> field d (str ''date'') = VStr date"
  by (auto simp: processRow_daily_def ebind_def Let_def rating_record_keys rating_record_date
      split: sum.splits prod.splits)

lemma processRow_symbol_record:
  "processRow_symbol symbol exchange row = Inr d \<Longrightarrow> is_rating_record d"
  by (auto simp: processRow_symbol_def ebind_def Let_def rating_record_keys
      split: sum.splits prod.splits)

lemma daily_workflow_eq:
  assumes "readTable getSoup (BASE_URL @ str ''/ratings/us/'') None = Inr (headers, data, soup)"
    and "page_date today soup = Inr date"
  shows "getDailyRatingsTable str_of getSoup today =
           (if survivors (processRow_daily date) data = [] then Inl KeyError
            else Inr \<lparr>columns = str ''uid'' # dataset_columns,
                      rows = map (dataset_row str_of) (survivors (processRow_daily date) data)\<rparr>)"
proof -
  have g: "getDailyRatingsTable str_of getSoup today =
      buildDataFrame str_of (survivors (processRow_daily date) data)"
    using assms by (simp add: getDailyRatingsTable_def ebind_def Let_def row_loop_eq)
  have r: "\<forall>d\<in>set (survivors (processRow_daily date) data). is_rating_record d"
    by (auto simp: survivors_set dest: processRow_daily_record)
  show ?thesis unfolding g using r by (simp add: build_no_records build_rating_records)
qed

lemma symbol_workflow_eq:
  assumes "ratings_link getSoup symbol = Inr (exchange, href)"
    and "readTable getSoup (BASE_URL @ href) (Some (str ''Ratings History'')) = Inr (headers, data, soup)"
  shows "getSymbolRatingsTable str_of getSoup symbol =
           (if survivors (processRow_symbol symbol exchange) data = [] then Inl KeyError
            else Inr \<lparr>columns = str ''uid'' # dataset_columns,
                      rows = map (dataset_row str_of)
                               (survivors (processRow_symbol symbol exchange) data)\<rparr>)"
proof -
  have g: "getSymbolRatingsTable str_of getSoup symbol =
      buildDataFrame str_of (survivors (processRow_symbol symbol exchange) data)"
    using assms by (simp add: getSymbolRatingsTable_def ebind_def Let_def row_loop_eq)
  have r: "\<forall>d\<in>set (survivors (processRow_symbol symbol exchange) data). is_rating_record d"
    by (auto simp: survivors_set dest: processRow_symbol_record)
  show ?thesis unfolding g using r by (simp add: build_no_records build_rating_records)
qed

section \<open>Properties of the Dataset Builder: the result\<close>

lemma build_success:
  assumes "buildDataFrame str_of data = Inr df"
  shows "set key_columns \<subseteq> set (out_columns data)"
    and "str ''uid'' \<notin> set (out_columns data)"
    and "df = \<lparr>columns = str ''uid'' # out_columns data,
               rows = map (\<lambda>d. VStr (record_uid str_of d) # map (field d) (out_columns data)) data\<rparr>"
  using assms by (auto simp: buildDataFrame_eq split: if_splits)

lemma record_uid_strings:
  "field d (str ''date'') = VStr dt \<Longrightarrow> field d (str ''symbol'') = VStr sy \<Longrightarrow>
   field d (str ''brokerage'') = VStr br \<Longrightarrow>
   record_uid str_of d = dt @ str ''_'' @ sy @ str ''_'' @ br"
  by (simp add: record_uid_def astype_str_def)

lemma frame_columns_Nil: "frame_columns [] = []"
  by (simp add: frame_columns_def)

lemma to_records_built:
  "to_records \<lparr>columns = u # cs, rows = map (\<lambda>d. v d # map (field d) cs) data\<rparr> =
     map (\<lambda>d. (u, v d) # map (\<lambda>c. (c, field d c)) cs) data"
  by (simp add: to_records_def zip_map2 zip_same_conv_map comp_def)

lemma field_of_pairs: "k \<in> set cs \<Longrightarrow> k \<noteq> u \<Longrightarrow> field ((u, x) # map (\<lambda>c. (c, f c)) cs) k = f k"
  by (simp add: field_def map_of_map_restrict comp_def)

lemma record_uid_filter:
  "record_uid str_of (filter (\<lambda>kv. fst kv \<noteq> str ''brokerage_code'') d) = record_uid str_of d"
proof -
  have "str ''date'' \<noteq> str ''brokerage_code''" "str ''symbol'' \<noteq> str ''brokerage_code''"
    "str ''brokerage'' \<noteq> str ''brokerage_code''"
    by (simp_all add: str_def)
  then show ?thesis
    using field_filter[of "\<lambda>k. k \<noteq> str ''brokerage_code''"] by (simp add: record_uid_def)
qed

section \<open>Properties of the Table Locator\<close>

lemma first_index_None: "first_index p xs = None \<longleftrightarrow> (\<forall>x\<in>set xs. \<not> p x)"
  by (induction xs) auto

lemma first_index_Some:
  "first_index p xs = Some i \<longleftrightarrow> i < length xs \<and> p (xs ! i) \<and> (\<forall>k<i. \<not> p (xs ! k))"
proof (induction xs arbitrary: i)
  case Nil
  then show ?case by simp
next
  case (Cons x xs)
  show ?case
  proof (cases "p x")
    case True
    then show ?thesis by (cases i) auto
  next
    case False
    show ?thesis
    proof (cases i)
      case 0
      with False show ?thesis by auto
    next
      case (Suc j)
      have "(\<forall>k<Suc j. \<not> p ((x # xs) ! k)) \<longleftrightarrow> (\<forall>k<j. \<not> p (xs ! k))"
        using False by (auto simp: less_Suc_eq_0_disj)
      with False Suc Cons.IH[of j] show ?thesis by auto
    qed
  qed
qed

lemma node_string_text: "node_string n = Some s \<Longrightarrow> node_text n = s"
  by (induction n arbitrary: s rule: node_string.induct) auto

lemma contains_iff: "contains h s \<longleftrightarrow> (\<exists>pre post. s = pre @ h @ post)"
proof (induction s)
  case Nil
  then show ?case by auto
next
  case (Cons x xs)
  have "take (length h) (x # xs) = h \<longleftrightarrow> (\<exists>post. x # xs = h @ post)"
    by (metis append_eq_conv_conj append_take_drop_id)
  moreover have "(\<exists>pre post. x # xs = pre @ h @ post) \<longleftrightarrow>
      (\<exists>post. x # xs = h @ post) \<or> (\<exists>pre post. xs = pre @ h @ post)"
  proof
    assume "\<exists>pre post. x # xs = pre @ h @ post"
    then obtain pre post where e: "x # xs = pre @ h @ post" by blast
    show "(\<exists>post. x # xs = h @ post) \<or> (\<exists>pre post. xs = pre @ h @ post)"
    proof (cases pre)
      case Nil
      with e show ?thesis by auto
    next
      case (Cons a pre')
      with e have "xs = pre' @ h @ post" by simp
      then show ?thesis by blast
    qed
  next
    assume "(\<exists>post. x # xs = h @ post) \<or> (\<exists>pre post. xs = pre @ h @ post)"
    then show "\<exists>pre post. x # xs = pre @ h @ post"
    proof
      assume "\<exists>post. x # xs = h @ post"
      then obtain post where "x # xs = [] @ h @ post" by auto
      then show ?thesis by blast
    next
      assume "\<exists>pre post. xs = pre @ h @ post"
      then obtain pre post where "x # xs = (x # pre) @ h @ post" by auto
      then show ?thesis by blast
    qed
  qed
  ultimately show ?case using Cons.IH by simp
qed

lemma h2_matches_text: "h2_matches h n \<Longrightarrow> is_tag (str ''h2'') n \<and> contains h (node_text n)"
  by (auto simp: h2_matches_def split: option.splits dest: node_string_text)

lemma readTable_locate_error:
  "locate_table (getSoup url) hint = Inl e \<Longrightarrow> readTable getSoup url hint = Inl e"
  by (simp add: readTable_def Let_def)

lemma readTable_locate_none:
  "locate_table (getSoup url) hint = Inr None \<Longrightarrow> readTable getSoup url hint = Inl AttributeError"
  by (simp add: readTable_def Let_def)

lemma readTable_not_named: "readTable getSoup url hint \<noteq> Inl TableNotFoundError"
  by (auto simp: readTable_def Let_def locate_table_def split: sum.splits option.splits)

lemma first_index_drop:
  "first_index p (drop m xs) = Some j \<longleftrightarrow>
     m + j < length xs \<and> p (xs ! (m + j)) \<and> (\<forall>k. m \<le> k \<and> k < m + j \<longrightarrow> \<not> p (xs ! k))"
proof (cases "m \<le> length xs")
  case False
  then show ?thesis by (simp add: first_index_Some)
next
  case True
  have "(\<forall>k<j. \<not> p (xs ! (m + k))) \<longleftrightarrow> (\<forall>k. m \<le> k \<and> k < m + j \<longrightarrow> \<not> p (xs ! k))"
  proof
    assume a: "\<forall>k<j. \<not> p (xs ! (m + k))"
    show "\<forall>k. m \<le> k \<and> k < m + j \<longrightarrow> \<not> p (xs ! k)"
    proof (intro allI impI)
      fix k assume "m \<le> k \<and> k < m + j"
      then have "k - m < j" "m + (k - m) = k" by auto
      with a show "\<not> p (xs ! k)" by metis
    qed
  next
    assume "\<forall>k. m \<le> k \<and> k < m + j \<longrightarrow> \<not> p (xs ! k)"
    then show "\<forall>k<j. \<not> p (xs ! (m + k))" by simp
  qed
  with True show ?thesis by (auto simp: first_index_Some)
qed

lemma locate_none_eq:
  "locate_table soup None = Inr (first_index (is_tag (str ''table'')) (descendants soup))"
  by (simp add: locate_table_def)

lemma locate_hint_Some:
  "locate_table soup (Some h) = Inr (Some j) \<longleftrightarrow>
     (\<exists>i. first_index (h2_matches h) (descendants soup) = Some i \<and>
          (\<exists>j'. first_index (is_tag (str ''table'')) (drop (Suc i) (descendants soup)) = Some j' \<and>
                j = Suc i + j'))"
  by (auto simp: locate_table_def split: option.splits)

lemma h2_matches_iff:
  "h2_matches h n \<longleftrightarrow> is_tag (str ''h2'') n \<and> (\<exists>pre post. node_string n = Some (pre @ h @ post))"
  by (auto simp: h2_matches_def contains_iff split: option.splits)

section \<open>Properties of the tree update\<close>

text \<open>
  The update at a position of the document order replaces the node at that position:
  the table that \<^verbatim>\<open>readTable\<close> reads, without its advertisement rows, is the table at
  the same position of the document it returns.
\<close>

lemma update_nodes_nth:
  "i < length (concat (map (\<lambda>c. c # descendants c) cs)) \<Longrightarrow>
   i < length (concat (map (\<lambda>c. c # descendants c) (update_nodes i f cs))) \<and>
   concat (map (\<lambda>c. c # descendants c) (update_nodes i f cs)) ! i =
     f (concat (map (\<lambda>c. c # descendants c) cs) ! i)"
proof (induction i f cs rule: update_nodes.induct)
  case (1 i f)
  then show ?case by simp
next
  case (2 i f s cs)
  show ?case
  proof (cases "i = 0")
    case True
    then show ?thesis by simp
  next
    case False
    then obtain j where j: "i = Suc j" by (cases i) auto
    with 2 False show ?thesis by simp
  qed
next
  case (3 i f n a ks cs)
  let ?flat = "\<lambda>xs. concat (map (\<lambda>c. c # descendants c) xs)"
  show ?case
  proof (cases "i = 0")
    case True
    then show ?thesis by simp
  next
    case False
    then obtain j where j: "i = Suc j" by (cases i) auto
    show ?thesis
    proof (cases "j < length (?flat ks)")
      case True
      with 3(1)[OF False] j have ih: "j < length (?flat (update_nodes j f ks))"
        "?flat (update_nodes j f ks) ! j = f (?flat ks ! j)"
        by simp_all
      with True j show ?thesis by (simp add: nth_append)
    next
      case False
      with 3(3) j have "j - length (?flat ks) < length (?flat cs)" by simp
      with 3(2) j False have ih:
        "j - length (?flat ks) < length (?flat (update_nodes (j - length (?flat ks)) f cs))"
        "?flat (update_nodes (j - length (?flat ks)) f cs) ! (j - length (?flat ks)) =
           f (?flat cs ! (j - length (?flat ks)))"
        by simp_all
      with False j show ?thesis by (simp add: nth_append)
    qed
  qed
qed

lemma update_descendant_nth:
  "i < length (descendants n) \<Longrightarrow>
   i < length (descendants (update_descendant i f n)) \<and>
   descendants (update_descendant i f n) ! i = f (descendants n ! i)"
  by (cases n) (simp_all add: update_nodes_nth)

lemma readTable_soup_table:
  assumes "readTable getSoup url hint = Inr (headers, data, soup')"
    and "locate_table (getSoup url) hint = Inr (Some i)"
  shows "descendants soup' ! i = decompose_all is_junk (descendants (getSoup url) ! i)"
proof -
  have i: "i < length (descendants (getSoup url))"
    using assms(2)
    by (cases hint) (auto simp: locate_table_def first_index_Some first_index_drop split: option.splits)
  have "soup' = update_descendant i (decompose_all is_junk) (getSoup url)"
    using assms by (auto simp: readTable_def Let_def split: option.splits)
  with i show ?thesis by (simp add: update_descendant_nth)
qed

section \<open>Properties of the page date\<close>

lemma find_Some_split:
  "List.find P xs = Some x \<Longrightarrow> \<exists>pre post. xs = pre @ x # post \<and> (\<forall>n\<in>set pre. \<not> P n) \<and> P x"
proof (induction xs)
  case Nil
  then show ?case by simp
next
  case (Cons a xs)
  show ?case
  proof (cases "P a")
    case True
    with Cons.prems have "a = x" by simp
    with True have "a # xs = [] @ x # xs \<and> (\<forall>n\<in>set []. \<not> P n) \<and> P x" by simp
    then show ?thesis by blast
  next
    case False
    with Cons obtain pre post where "xs = pre @ x # post" "\<forall>n\<in>set pre. \<not> P n" "P x" by auto
    with False have "a # xs = (a # pre) @ x # post \<and> (\<forall>n\<in>set (a # pre). \<not> P n) \<and> P x" by simp
    then show ?thesis by blast
  qed
qed

lemma date_re_match_shape:
  assumes "date_re_match s = Some g"
  shows "\<exists>post. s = [40] @ g @ [41] @ post"
proof -
  from assms obtain r where s: "s = 40 # r"
    by (cases s) (auto simp: date_re_match_def split: if_splits)
  let ?a = "takeWhile is_digit r" and ?r1 = "dropWhile is_digit r"
  from assms s have 1: "take 1 ?r1 = [47]"
    by (auto simp: date_re_match_def Let_def split: if_splits)
  then obtain r1' where r1: "?r1 = 47 # r1'" by (cases ?r1) auto
  let ?b = "takeWhile is_digit r1'" and ?r2 = "dropWhile is_digit r1'"
  from assms s r1 have 2: "take 1 ?r2 = [47]"
    by (auto simp: date_re_match_def Let_def split: if_splits)
  then obtain r2' where r2: "?r2 = 47 # r2'" by (cases ?r2) auto
  from assms s r1 r2 have 3: "take 1 (drop 4 r2') = [41]" and g: "g = ?a @ [47] @ ?b @ [47] @ take 4 r2'"
    by (auto simp: date_re_match_def Let_def split: if_splits)
  from 3 obtain post where p: "drop 4 r2' = 41 # post" by (cases "drop 4 r2'") auto
  have "r = ?a @ ?r1" by simp
  also have "?r1 = 47 # ?b @ ?r2" using r1 by simp
  also have "?r2 = 47 # take 4 r2' @ drop 4 r2'" using r2 by simp
  finally have "r = ?a @ 47 # ?b @ 47 # take 4 r2' @ 41 # post" using p by simp
  then have "s = [40] @ g @ [41] @ post" using s g by simp
  then show ?thesis by blast
qed

lemma date_re_search_shape:
  "date_re_search s = Some g \<Longrightarrow> \<exists>pre post. s = pre @ [40] @ g @ [41] @ post"
proof (induction s)
  case Nil
  then show ?case by simp
next
  case (Cons c cs)
  show ?case
  proof (cases "date_re_match (c # cs)")
    case (Some g')
    with Cons.prems have "g' = g" by simp
    with Some obtain post where "c # cs = [] @ [40] @ g @ [41] @ post"
      using date_re_match_shape[of "c # cs" g] by auto
    then show ?thesis by blast
  next
    case None
    with Cons obtain pre post where "cs = pre @ [40] @ g @ [41] @ post" by auto
    then have "c # cs = (c # pre) @ [40] @ g @ [41] @ post" by simp
    then show ?thesis by blast
  qed
qed

lemma dataset_row_date:
  "field d (str ''date'') = VStr date \<Longrightarrow>
   cell \<lparr>columns = str ''uid'' # dataset_columns, rows = rs\<rparr> (dataset_row str_of d) (str ''date'') = VStr date"
  by (simp add: cell_def dataset_row_def dataset_columns_def str_def)

lemma page_date_cases:
  assumes "page_date today soup = Inr date"
  shows "(find_tag date_div soup = None \<longrightarrow> date = today) \<and>
         (\<forall>tag. find_tag date_div soup = Some tag \<longrightarrow>
            (\<exists>g ymd. date_re_search (node_text tag) = Some g \<and> strptime_mdY g = Inr ymd \<and>
               date = strftime_Ymd ymd))"
  using assms
  by (auto simp: page_date_def found_def ebind_def split: option.splits sum.splits)

section \<open>Evaluation of the sample pages\<close>

lemmas page_defs = el_def tx_def symbol_cell_def brokerage_cell_def price_cell_def rating_cell_def
  daily_row_def bad_row_def table_of_def page_of_def str_def arrow_def serve_def

lemmas soup_defs = find_tag_def find_all_def is_tag_def has_class_def has_id_def get_default_def
  found_def ebind_def is_junk_def Let_def

lemmas string_defs = strip_def is_space_def is_digit_def is_word_def py_index_def

lemmas number_defs = py_int_def py_float_def float_unsigned_def lower_def float_number_def
  float_mantissa_def float_exponent_def is_exp_mark_def digits_value_def scale10_def

lemmas parser_defs = parseSymbolTag_def parseBrokerageTag_def parseAnalystTag_def
  parsePriceTargetTag_def parseRatingTag_def parseDateTag_def re_match_run_def

lemmas date_defs = page_date_def date_div_def date_re_match_def strptime_mdY_def strp_month_def
  strp_day_def strp_year_def strftime_Ymd_def year_digits_def four_digits_def two_digits_def
  digit_char_def days_in_month_def leap_year_def digits_value_def

lemmas site_defs = symbol_row_def overview_page_def history_page_def sample_site_def BASE_URL_def

lemma daily_row_AAA:
  "processRow_daily date (daily_row ''AAA'') =
     Inr (rating_record (str ''AAA'') date (str ''NASDAQ'') (str ''Upgraded by'') (str ''Bank_of_X'')
            (str ''34'') None (Fin (25 / 2)) (str ''Buy'') 3)"
  by (simp add: processRow_daily_def parser_defs number_defs page_defs soup_defs string_defs)

lemma daily_row_CCC:
  "processRow_daily date (daily_row ''CCC'') =
     Inr (rating_record (str ''CCC'') date (str ''NASDAQ'') (str ''Upgraded by'') (str ''Bank_of_X'')
            (str ''34'') None (Fin (25 / 2)) (str ''Buy'') 3)"
  by (simp add: processRow_daily_def parser_defs number_defs page_defs soup_defs string_defs)

lemma bad_row_fails: "processRow_daily date bad_row = Inl AttributeError"
  by (simp add: processRow_daily_def parser_defs number_defs page_defs soup_defs string_defs)

lemma read_page_mixed:
  "readTable (serve page_mixed) url None =
     Inr ([el ''th'' [] [tx ''Company'']], [daily_row ''AAA'', bad_row, daily_row ''CCC''], page_mixed)"
  by (simp add: readTable_def locate_table_def page_mixed_def page_defs soup_defs)

lemma date_page_mixed: "page_date today page_mixed = Inr (str ''2020-01-02'')"
  by (simp add: date_defs page_mixed_def page_defs soup_defs string_defs)

lemma read_page_single_bad:
  "readTable (serve page_single_bad) url None =
     Inr ([el ''th'' [] [tx ''Company'']], [bad_row], page_single_bad)"
  by (simp add: readTable_def locate_table_def page_single_bad_def page_defs soup_defs)

lemma date_page_single_bad: "page_date today page_single_bad = Inr today"
  by (simp add: date_defs page_single_bad_def page_defs soup_defs string_defs)

lemma sample_dataset_row:
  "dataset_row no_str (rating_record (str ticker) (str date) (str ''NASDAQ'') (str ''Upgraded by'')
      (str ''Bank_of_X'') (str ''34'') None (Fin (25 / 2)) (str ''Buy'') 3) = sample_row date ticker"
  by (simp add: dataset_row_def record_uid_def dataset_columns_def field_def rating_record_def
      astype_str_def opt_str_def sample_row_def str_def)

lemma sample_link:
  "ratings_link sample_site (str ''AAA'') = Inr (str ''NASDAQ'', str ''/stocks/NASDAQ/AAA/price-target/'')"
  by (simp add: ratings_link_def re_match_run_def site_defs page_defs soup_defs string_defs)

lemma read_history_page:
  "readTable sample_site (BASE_URL @ str ''/stocks/NASDAQ/AAA/price-target/'') (Some (str ''Ratings History'')) =
     Inr ([el ''th'' [] [tx ''Company'']],
          [symbol_row ''1/2/2020'', symbol_row ''13/45/2020'', symbol_row ''12/31/2019''],
          history_page)"
  by (simp add: readTable_def locate_table_def h2_matches_def site_defs page_defs soup_defs)

lemma symbol_row_1:
  "processRow_symbol s e (symbol_row ''1/2/2020'') =
     Inr (rating_record s (str ''2020-01-02'') e (str ''Upgrade'') (str ''Bank_of_X'')
            (str ''34'') (Some (str ''Jane Doe'')) (Fin (25 / 2)) (str ''Buy'') 3)"
  by (simp add: processRow_symbol_def parser_defs number_defs date_defs site_defs page_defs
      soup_defs string_defs)

lemma symbol_row_2: "processRow_symbol s e (symbol_row ''13/45/2020'') = Inl ValueError"
  by (simp add: processRow_symbol_def parser_defs number_defs date_defs site_defs page_defs
      soup_defs string_defs)

lemma symbol_row_3:
  "processRow_symbol s e (symbol_row ''12/31/2019'') =
     Inr (rating_record s (str ''2019-12-31'') e (str ''Upgrade'') (str ''Bank_of_X'')
            (str ''34'') (Some (str ''Jane Doe'')) (Fin (25 / 2)) (str ''Buy'') 3)"
  by (simp add: processRow_symbol_def parser_defs number_defs date_defs site_defs page_defs
      soup_defs string_defs)

lemma history_dataset_row:
  "dataset_row no_str (rating_record (str ''AAA'') (str date) (str ''NASDAQ'') (str ''Upgrade'')
      (str ''Bank_of_X'') (str ''34'') (Some (str ''Jane Doe'')) (Fin (25 / 2)) (str ''Buy'') 3) =
   history_row date"
  by (simp add: dataset_row_def record_uid_def dataset_columns_def field_def rating_record_def
      astype_str_def opt_str_def history_row_def str_def)

lemma build_sample_records: "buildDataFrame no_str sample_records = Inr sample_frame"
proof -
  have "sample_records \<noteq> []" by (simp add: sample_records_def)
  moreover have "\<forall>d\<in>set sample_records. is_rating_record d"
    by (simp add: sample_records_def sample_record_def rating_record_keys)
  ultimately have "buildDataFrame no_str sample_records =
      Inr \<lparr>columns = str ''uid'' # dataset_columns, rows = map (dataset_row no_str) sample_records\<rparr>"
    by (rule build_rating_records)
  then show ?thesis
    by (simp add: sample_records_def sample_record_def sample_dataset_row sample_frame_def)
qed

lemma link_no_heading:
  "ratings_link site_no_heading (str ''AAA'') = Inr (str ''NASDAQ'', str ''/stocks/NASDAQ/AAA/price-target/'')"
  by (simp add: ratings_link_def re_match_run_def site_no_heading_def site_defs page_defs soup_defs string_defs)

lemma site_no_heading_page:
  "site_no_heading (BASE_URL @ str ''/stocks/NASDAQ/AAA/price-target/'') = page_no_heading"
  by (simp add: site_no_heading_def BASE_URL_def str_def)

lemma read_page_p_date:
  "readTable (serve page_p_date) url None =
     Inr ([el ''th'' [] [tx ''Company'']], [daily_row ''AAA''], page_p_date)"
  by (simp add: readTable_def locate_table_def page_p_date_def page_defs soup_defs)

lemma date_page_p_date: "page_date today page_p_date = Inr today"
  by (simp add: date_defs page_p_date_def page_defs soup_defs string_defs)

lemma read_page_all_bad:
  "readTable (serve page_all_bad) url None =
     Inr ([el ''th'' [] [tx ''Company'']], [bad_row, [], unrated_row], page_all_bad)"
  by (simp add: readTable_def locate_table_def page_all_bad_def unrated_row_def
      rating_cell_decimal_def page_defs soup_defs)

lemma date_page_all_bad: "page_date today page_all_bad = Inr (str ''2020-01-02'')"
  by (simp add: date_defs page_all_bad_def unrated_row_def rating_cell_decimal_def page_defs
      soup_defs string_defs)

lemma empty_row_fails: "processRow_daily date [] = Inl IndexError"
  by (simp add: processRow_daily_def py_index_def ebind_def)

lemma unrated_row_fails: "processRow_daily date unrated_row = Inl ValueError"
  by (simp add: processRow_daily_def parser_defs number_defs unrated_row_def rating_cell_decimal_def
      page_defs soup_defs string_defs)

lemma daily_page_mixed:
  "getDailyRatingsTable no_str (serve page_mixed) today = Inr frame_mixed"
proof -
  have s: "survivors (processRow_daily (str ''2020-01-02'')) [daily_row ''AAA'', bad_row, daily_row ''CCC''] =
      [sample_record ''2020-01-02'' ''AAA'', sample_record ''2020-01-02'' ''CCC'']"
    by (simp add: survivors_Cons survivors_Nil daily_row_AAA daily_row_CCC bad_row_fails sample_record_def)
  show ?thesis
    using daily_workflow_eq[OF read_page_mixed date_page_mixed, of no_str today]
    by (simp add: s sample_record_def sample_dataset_row frame_mixed_def)
qed


lemma read_page_no_rows:
  "readTable (serve page_no_rows) url None = Inr ([el ''th'' [] [tx ''Company'']], [], page_no_rows)"
  by (simp add: readTable_def locate_table_def page_no_rows_def page_defs soup_defs)

lemma date_page_no_rows: "page_date today page_no_rows = Inr (str ''2020-01-02'')"
  by (simp add: date_defs page_no_rows_def page_defs soup_defs string_defs)

text \<open>
  The advertisement row never reaches the Row Assembler, and it has left the document
  in which the date is looked up.
\<close>

lemma advert_rows_leave_document:
  "readTable (serve page_advert) url None =
     Inr ([el ''th'' [] [tx ''Company'']], [daily_row ''AAA''], page_one_row) \<and>
   date_re_search (node_text page_advert) = Some (str ''1/2/2020'') \<and>
   page_date today page_one_row = Inr today"
  by (simp add: readTable_def locate_table_def date_defs page_advert_def page_one_row_def
      page_defs soup_defs string_defs)

section \<open>Row Assembler: isolation of a failing row\<close>

text \<open>
  A row on which \<^verbatim>\<open>processRow\<close> raises is left out and the loop goes on with the rows
  after it: the list of records handed to the Dataset Builder holds one record for
  every other row, in the order of the rows. When at least one row is kept, both
  workflows return the Dataset whose rows are the rows of these records, in that order.
\<close>

lemma row_loop_isolation:
  "row_loop processRow [] data = survivors processRow data \<and>
   (processRow bad = Inl e \<longrightarrow>
      row_loop processRow [] (before @ [bad] @ after) = row_loop processRow [] (before @ after)) \<and>
   (readTable getSoup (BASE_URL @ str ''/ratings/us/'') None = Inr (headers, daily_rows, soup) \<and>
    page_date today soup = Inr date \<and> survivors (processRow_daily date) daily_rows \<noteq> [] \<longrightarrow>
      getDailyRatingsTable str_of getSoup today =
        Inr \<lparr>columns = str ''uid'' # dataset_columns,
             rows = map (dataset_row str_of) (survivors (processRow_daily date) daily_rows)\<rparr>) \<and>
   (ratings_link getSoup symbol = Inr (exchange, href) \<and>
    readTable getSoup (BASE_URL @ href) (Some (str ''Ratings History'')) =
      Inr (headers2, symbol_rows, soup2) \<and>
    survivors (processRow_symbol symbol exchange) symbol_rows \<noteq> [] \<longrightarrow>
      getSymbolRatingsTable str_of getSoup symbol =
        Inr \<lparr>columns = str ''uid'' # dataset_columns,
             rows = map (dataset_row str_of)
                      (survivors (processRow_symbol symbol exchange) symbol_rows)\<rparr>)"
proof (intro conjI impI)
  show "row_loop processRow [] data = survivors processRow data"
    by (simp add: row_loop_eq)
next
  assume "processRow bad = Inl e"
  then have "survivors processRow (bad # after) = survivors processRow after"
    by (simp add: survivors_Cons)
  then show "row_loop processRow [] (before @ [bad] @ after) = row_loop processRow [] (before @ after)"
    by (simp add: row_loop_eq survivors_append)
next
  assume a: "readTable getSoup (BASE_URL @ str ''/ratings/us/'') None = Inr (headers, daily_rows, soup) \<and>
    page_date today soup = Inr date \<and> survivors (processRow_daily date) daily_rows \<noteq> []"
  then show "getDailyRatingsTable str_of getSoup today =
        Inr \<lparr>columns = str ''uid'' # dataset_columns,
             rows = map (dataset_row str_of) (survivors (processRow_daily date) daily_rows)\<rparr>"
    using daily_workflow_eq[of getSoup headers daily_rows soup today date str_of] by simp
next
  assume a: "ratings_link getSoup symbol = Inr (exchange, href) \<and>
    readTable getSoup (BASE_URL @ href) (Some (str ''Ratings History'')) =
      Inr (headers2, symbol_rows, soup2) \<and>
    survivors (processRow_symbol symbol exchange) symbol_rows \<noteq> []"
  then show "getSymbolRatingsTable str_of getSoup symbol =
        Inr \<lparr>columns = str ''uid'' # dataset_columns,
             rows = map (dataset_row str_of)
                      (survivors (processRow_symbol symbol exchange) symbol_rows)\<rparr>"
    using symbol_workflow_eq[of getSoup symbol exchange href headers2 symbol_rows soup2 str_of] by simp
qed

lemma row_loop_isolation_example:
  "row_loop (processRow_daily (str ''2020-01-02'')) [] ([daily_row ''AAA''] @ [bad_row] @ [daily_row ''CCC'']) =
     row_loop (processRow_daily (str ''2020-01-02'')) [] ([daily_row ''AAA''] @ [daily_row ''CCC'']) \<and>
   getDailyRatingsTable no_str (serve page_mixed) (str ''2021-05-05'') =
     Inr \<lparr>columns = str ''uid'' # dataset_columns,
          rows = [sample_row ''2020-01-02'' ''AAA'', sample_row ''2020-01-02'' ''CCC'']\<rparr> \<and>
   getSymbolRatingsTable no_str sample_site (str ''AAA'') =
     Inr \<lparr>columns = str ''uid'' # dataset_columns,
          rows = [history_row ''2020-01-02'', history_row ''2019-12-31'']\<rparr>"
proof -
  note iso = row_loop_isolation[of "processRow_daily (str ''2020-01-02'')" "[]" bad_row
      AttributeError "[daily_row ''AAA'']" "[daily_row ''CCC'']"
      "serve page_mixed" "[el ''th'' [] [tx ''Company'']]"
      "[daily_row ''AAA'', bad_row, daily_row ''CCC'']" page_mixed "str ''2021-05-05''"
      "str ''2020-01-02''" no_str]
  have s: "survivors (processRow_daily (str ''2020-01-02'')) [daily_row ''AAA'', bad_row, daily_row ''CCC''] =
      [sample_record ''2020-01-02'' ''AAA'', sample_record ''2020-01-02'' ''CCC'']"
    by (simp add: survivors_Cons survivors_Nil daily_row_AAA daily_row_CCC bad_row_fails sample_record_def)
  have 1: "row_loop (processRow_daily (str ''2020-01-02'')) [] ([daily_row ''AAA''] @ [bad_row] @ [daily_row ''CCC'']) =
     row_loop (processRow_daily (str ''2020-01-02'')) [] ([daily_row ''AAA''] @ [daily_row ''CCC''])"
    using iso[THEN conjunct2, THEN conjunct1, THEN mp, OF bad_row_fails] .
  have h: "readTable (serve page_mixed) (BASE_URL @ str ''/ratings/us/'') None =
      Inr ([el ''th'' [] [tx ''Company'']], [daily_row ''AAA'', bad_row, daily_row ''CCC''], page_mixed) \<and>
      page_date (str ''2021-05-05'') page_mixed = Inr (str ''2020-01-02'') \<and>
      survivors (processRow_daily (str ''2020-01-02'')) [daily_row ''AAA'', bad_row, daily_row ''CCC''] \<noteq> []"
    by (simp add: read_page_mixed date_page_mixed s)
  have 2: "getDailyRatingsTable no_str (serve page_mixed) (str ''2021-05-05'') =
     Inr \<lparr>columns = str ''uid'' # dataset_columns,
          rows = [sample_row ''2020-01-02'' ''AAA'', sample_row ''2020-01-02'' ''CCC'']\<rparr>"
    using iso[THEN conjunct2, THEN conjunct2, THEN conjunct1, THEN mp, OF h]
    by (simp add: s sample_record_def sample_dataset_row)
  note iso2 = row_loop_isolation[of "processRow_daily (str ''2020-01-02'')" "[]" bad_row
      AttributeError "[]" "[]" sample_site "[]" "[]" page_mixed "[]" "[]" no_str
      "str ''AAA''" "str ''NASDAQ''" "str ''/stocks/NASDAQ/AAA/price-target/''"
      "[el ''th'' [] [tx ''Company'']]"
      "[symbol_row ''1/2/2020'', symbol_row ''13/45/2020'', symbol_row ''12/31/2019'']" history_page]
  have s2: "survivors (processRow_symbol (str ''AAA'') (str ''NASDAQ''))
        [symbol_row ''1/2/2020'', symbol_row ''13/45/2020'', symbol_row ''12/31/2019''] =
      [rating_record (str ''AAA'') (str ''2020-01-02'') (str ''NASDAQ'') (str ''Upgrade'') (str ''Bank_of_X'')
            (str ''34'') (Some (str ''Jane Doe'')) (Fin (25 / 2)) (str ''Buy'') 3,
       rating_record (str ''AAA'') (str ''2019-12-31'') (str ''NASDAQ'') (str ''Upgrade'') (str ''Bank_of_X'')
            (str ''34'') (Some (str ''Jane Doe'')) (Fin (25 / 2)) (str ''Buy'') 3]"
    by (simp add: survivors_Cons survivors_Nil symbol_row_1 symbol_row_2 symbol_row_3)
  have h2: "ratings_link sample_site (str ''AAA'') =
        Inr (str ''NASDAQ'', str ''/stocks/NASDAQ/AAA/price-target/'') \<and>
      readTable sample_site (BASE_URL @ str ''/stocks/NASDAQ/AAA/price-target/'')
        (Some (str ''Ratings History'')) =
        Inr ([el ''th'' [] [tx ''Company'']],
             [symbol_row ''1/2/2020'', symbol_row ''13/45/2020'', symbol_row ''12/31/2019''],
             history_page) \<and>
      survivors (processRow_symbol (str ''AAA'') (str ''NASDAQ''))
        [symbol_row ''1/2/2020'', symbol_row ''13/45/2020'', symbol_row ''12/31/2019''] \<noteq> []"
    by (simp add: sample_link read_history_page s2)
  have 3: "getSymbolRatingsTable no_str sample_site (str ''AAA'') =
     Inr \<lparr>columns = str ''uid'' # dataset_columns,
          rows = [history_row ''2020-01-02'', history_row ''2019-12-31'']\<rparr>"
    using iso2[THEN conjunct2, THEN conjunct2, THEN conjunct2, THEN mp, OF h2]
    by (simp add: s2 history_dataset_row)
  from 1 2 3 show ?thesis by simp
qed

section \<open>The claims\<close>

text \<open>
  Claim C1 (row-failure isolation): the code breaks it when no row is kept. On a page
  whose table has a single row, with a brokerage cell that has no link, \<^verbatim>\<open>processRow\<close>
  raises and the loop leaves the row out, as the claim says; the list of records is
  then empty, \<^verbatim>\<open>buildDataFrame\<close> raises \<^verbatim>\<open>KeyError\<close> and the batch is aborted, where the
  claim has a Dataset without records.
\<close>

theorem single_malformed_row_aborts:
  "readTable (serve page_single_bad) (BASE_URL @ str ''/ratings/us/'') None =
     Inr ([el ''th'' [] [tx ''Company'']], [bad_row], page_single_bad) \<and>
   survivors (processRow_daily (str ''2021-05-05'')) [bad_row] = [] \<and>
   getDailyRatingsTable no_str (serve page_single_bad) (str ''2021-05-05'') = Inl KeyError"
proof -
  have s: "survivors (processRow_daily (str ''2021-05-05'')) [bad_row] = []"
    by (simp add: survivors_Cons survivors_Nil bad_row_fails)
  have "getDailyRatingsTable no_str (serve page_single_bad) (str ''2021-05-05'') = Inl KeyError"
    using daily_workflow_eq[OF read_page_single_bad date_page_single_bad, of no_str "str ''2021-05-05''"] s
    by simp
  with s read_page_single_bad show ?thesis by simp
qed

text \<open>
  Claim C2 (uid). Whenever \<^verbatim>\<open>buildDataFrame\<close> returns a Dataset, \<^verbatim>\<open>uid\<close> is its first
  column and occurs once, the Dataset has one row per record in the order of the records,
  and the \<^verbatim>\<open>uid\<close> of the row of a record whose date, symbol and brokerage are strings is
  date, \<^verbatim>\<open>_\<close>, symbol, \<^verbatim>\<open>_\<close>, brokerage, concatenated as they are (no escaping). For a
  non-empty list of records of \<^verbatim>\<open>processRow\<close> the Dataset is returned.
\<close>

theorem uid_leading_concatenation:
  "(buildDataFrame str_of data = Inr df \<longrightarrow>
      (\<exists>cs. columns df = str ''uid'' # cs \<and> str ''uid'' \<notin> set cs) \<and>
      length (rows df) = length data \<and>
      (\<forall>i<length data. \<forall>dt sy br.
         field (data ! i) (str ''date'') = VStr dt \<and>
         field (data ! i) (str ''symbol'') = VStr sy \<and>
         field (data ! i) (str ''brokerage'') = VStr br \<longrightarrow>
         hd (rows df ! i) = VStr (dt @ str ''_'' @ sy @ str ''_'' @ br))) \<and>
   (data \<noteq> [] \<and> (\<forall>d\<in>set data. is_rating_record d) \<longrightarrow>
      (\<exists>df'. buildDataFrame str_of data = Inr df'))"
proof (intro conjI impI)
  assume a: "buildDataFrame str_of data = Inr df"
  note b = build_success[OF a]
  show "\<exists>cs. columns df = str ''uid'' # cs \<and> str ''uid'' \<notin> set cs"
    using b(2) by (simp add: b(3))
  show "length (rows df) = length data" by (simp add: b(3))
  have "hd (rows df ! i) = VStr (dt @ str ''_'' @ sy @ str ''_'' @ br)"
    if "i < length data" "field (data ! i) (str ''date'') = VStr dt"
       "field (data ! i) (str ''symbol'') = VStr sy" "field (data ! i) (str ''brokerage'') = VStr br"
    for i dt sy br
    using that by (simp add: b(3) record_uid_strings)
  then show "\<forall>i<length data. \<forall>dt sy br.
         field (data ! i) (str ''date'') = VStr dt \<and>
         field (data ! i) (str ''symbol'') = VStr sy \<and>
         field (data ! i) (str ''brokerage'') = VStr br \<longrightarrow>
         hd (rows df ! i) = VStr (dt @ str ''_'' @ sy @ str ''_'' @ br)"
    by blast
next
  assume "data \<noteq> [] \<and> (\<forall>d\<in>set data. is_rating_record d)"
  then show "\<exists>df'. buildDataFrame str_of data = Inr df'"
    by (simp add: build_rating_records)
qed

text \<open>Two records with the brokerage \<^verbatim>\<open>Bank_of_X\<close>: the underscores of the name stay as they are.\<close>

theorem uid_leading_concatenation_witness:
  "buildDataFrame no_str sample_records = Inr sample_frame \<and>
   hd (columns sample_frame) = str ''uid'' \<and>
   hd (rows sample_frame ! 0) = VStr (str ''2020-01-02_AAA_Bank_of_X'')"
proof -
  note t = uid_leading_concatenation[of no_str sample_records sample_frame, THEN conjunct1,
      THEN mp, OF build_sample_records]
  have f: "field (sample_records ! 0) (str ''date'') = VStr (str ''2020-01-02'') \<and>
      field (sample_records ! 0) (str ''symbol'') = VStr (str ''AAA'') \<and>
      field (sample_records ! 0) (str ''brokerage'') = VStr (str ''Bank_of_X'')"
    by (simp add: sample_records_def sample_record_def rating_record_def field_def str_def)
  have l: "0 < length sample_records" by (simp add: sample_records_def)
  have "hd (rows sample_frame ! 0) =
      VStr (str ''2020-01-02'' @ str ''_'' @ str ''AAA'' @ str ''_'' @ str ''Bank_of_X'')"
    using t[THEN conjunct2, THEN conjunct2, rule_format, OF l f] .
  then have 1: "hd (rows sample_frame ! 0) = VStr (str ''2020-01-02_AAA_Bank_of_X'')"
    by (simp add: str_def)
  from t[THEN conjunct1] have 2: "hd (columns sample_frame) = str ''uid''" by auto
  from build_sample_records 1 2 show ?thesis by simp
qed

text \<open>
  Claim C3 (no table for the heading hint), amended. When a heading hint is given and
  no \<^verbatim>\<open>h2\<close> element of the document has a text that contains the hint, or no table
  follows the first matching heading, \<^verbatim>\<open>readTable\<close> fails with the \<^verbatim>\<open>AttributeError\<close> of
  an attribute access on \<^verbatim>\<open>None\<close> (the program has no \<^verbatim>\<open>TableNotFoundError\<close>), and
  \<^verbatim>\<open>getSymbolRatingsTable\<close> passes this failure on to its caller.
\<close>

theorem missing_heading_or_table_fails:
  assumes "(\<forall>n\<in>set (descendants (getSoup url)). is_tag (str ''h2'') n \<longrightarrow> \<not> contains h (node_text n)) \<or>
           (\<exists>i. first_index (h2_matches h) (descendants (getSoup url)) = Some i \<and>
                (\<forall>n\<in>set (drop (Suc i) (descendants (getSoup url))). \<not> is_tag (str ''table'') n))"
  shows "readTable getSoup url (Some h) = Inl AttributeError \<and>
         (ratings_link getSoup symbol = Inr (exchange, href) \<and> url = BASE_URL @ href \<and>
          h = str ''Ratings History'' \<longrightarrow>
            getSymbolRatingsTable str_of getSoup symbol = Inl AttributeError)"
proof -
  have r: "readTable getSoup url (Some h) = Inl AttributeError"
    using assms
  proof
    assume "\<forall>n\<in>set (descendants (getSoup url)). is_tag (str ''h2'') n \<longrightarrow> \<not> contains h (node_text n)"
    then have "\<forall>n\<in>set (descendants (getSoup url)). \<not> h2_matches h n"
      by (auto dest: h2_matches_text)
    then have "first_index (h2_matches h) (descendants (getSoup url)) = None"
      by (simp add: first_index_None)
    then have "locate_table (getSoup url) (Some h) = Inl AttributeError"
      by (simp add: locate_table_def)
    then show ?thesis by (rule readTable_locate_error)
  next
    assume "\<exists>i. first_index (h2_matches h) (descendants (getSoup url)) = Some i \<and>
                (\<forall>n\<in>set (drop (Suc i) (descendants (getSoup url))). \<not> is_tag (str ''table'') n)"
    then obtain i where i: "first_index (h2_matches h) (descendants (getSoup url)) = Some i"
      and n: "\<forall>n\<in>set (drop (Suc i) (descendants (getSoup url))). \<not> is_tag (str ''table'') n"
      by blast
    from n have "first_index (is_tag (str ''table'')) (drop (Suc i) (descendants (getSoup url))) = None"
      by (simp add: first_index_None)
    with i have "locate_table (getSoup url) (Some h) = Inr None"
      by (simp add: locate_table_def)
    then show ?thesis by (rule readTable_locate_none)
  qed
  have "getSymbolRatingsTable str_of getSoup symbol = Inl AttributeError"
    if "ratings_link getSoup symbol = Inr (exchange, href)" "url = BASE_URL @ href"
       "h = str ''Ratings History''"
    using that r by (simp add: getSymbolRatingsTable_def ebind_def)
  with r show ?thesis by blast
qed

text \<open>A ratings page without the heading, behind the overview page of the symbol, and a page whose only table precedes the heading.\<close>

theorem missing_heading_or_table_fails_witness:
  "readTable site_no_heading (BASE_URL @ str ''/stocks/NASDAQ/AAA/price-target/'')
     (Some (str ''Ratings History'')) = Inl AttributeError \<and>
   getSymbolRatingsTable no_str site_no_heading (str ''AAA'') = Inl AttributeError \<and>
   readTable (serve page_table_before) [] (Some (str ''Ratings History'')) = Inl AttributeError"
proof -
  have a: "(\<forall>n\<in>set (descendants (site_no_heading (BASE_URL @ str ''/stocks/NASDAQ/AAA/price-target/''))).
        is_tag (str ''h2'') n \<longrightarrow> \<not> contains (str ''Ratings History'') (node_text n)) \<or>
      (\<exists>i. first_index (h2_matches (str ''Ratings History''))
             (descendants (site_no_heading (BASE_URL @ str ''/stocks/NASDAQ/AAA/price-target/''))) = Some i \<and>
           (\<forall>n\<in>set (drop (Suc i) (descendants (site_no_heading (BASE_URL @ str ''/stocks/NASDAQ/AAA/price-target/'')))).
              \<not> is_tag (str ''table'') n))"
    unfolding site_no_heading_page
    by (rule disjI1) (simp add: page_no_heading_def site_defs page_defs is_tag_def)
  note t = missing_heading_or_table_fails[where getSoup = site_no_heading
      and url = "BASE_URL @ str ''/stocks/NASDAQ/AAA/price-target/''"
      and h = "str ''Ratings History''" and symbol = "str ''AAA''" and exchange = "str ''NASDAQ''"
      and href = "str ''/stocks/NASDAQ/AAA/price-target/''" and str_of = no_str, OF a]
  have 1: "readTable site_no_heading (BASE_URL @ str ''/stocks/NASDAQ/AAA/price-target/'')
     (Some (str ''Ratings History'')) = Inl AttributeError"
    using t by (rule conjunct1)
  have 2: "getSymbolRatingsTable no_str site_no_heading (str ''AAA'') = Inl AttributeError"
    using t[THEN conjunct2] link_no_heading by simp
  have b: "(\<forall>n\<in>set (descendants (serve page_table_before [])).
        is_tag (str ''h2'') n \<longrightarrow> \<not> contains (str ''Ratings History'') (node_text n)) \<or>
      (\<exists>i. first_index (h2_matches (str ''Ratings History'')) (descendants (serve page_table_before [])) = Some i \<and>
           (\<forall>n\<in>set (drop (Suc i) (descendants (serve page_table_before []))). \<not> is_tag (str ''table'') n))"
    by (rule disjI2)
       (simp add: page_table_before_def h2_matches_def site_defs page_defs is_tag_def)
  have 3: "readTable (serve page_table_before) [] (Some (str ''Ratings History'')) = Inl AttributeError"
    using missing_heading_or_table_fails[where getSoup = "serve page_table_before" and url = "[]"
        and h = "str ''Ratings History''", OF b]
    by (rule conjunct1)
  from 1 2 3 show ?thesis by simp
qed

text \<open>The claim as stated fails: the error is not the \<^verbatim>\<open>TableNotFoundError\<close> it names.\<close>

theorem missing_heading_error_counterexample:
  "readTable (serve page_no_heading) (BASE_URL @ str ''/stocks/NASDAQ/AAA/price-target/'')
     (Some (str ''Ratings History'')) = Inl AttributeError \<and>
   readTable (serve page_no_heading) (BASE_URL @ str ''/stocks/NASDAQ/AAA/price-target/'')
     (Some (str ''Ratings History'')) \<noteq> Inl TableNotFoundError"
  by (simp add: readTable_def locate_table_def h2_matches_def page_no_heading_def site_defs
      page_defs soup_defs)

text \<open>
  Claim C4 (table selection), amended. Without a heading hint \<^verbatim>\<open>readTable\<close> takes the
  first table of the document, whatever the headings say. With a hint it takes the first
  \<^verbatim>\<open>h2\<close> element whose string (the text of an element that holds a single string)
  contains the hint at any position, compared character by character and so with
  regard to case, and then the nearest table after that heading in document order. The
  headers and rows it returns are those of the table so selected.
\<close>

theorem table_selection:
  "(\<exists>r. locate_table soup None = Inr r \<and>
        (case r of
           None \<Rightarrow> \<forall>n\<in>set (descendants soup). \<not> is_tag (str ''table'') n
         | Some j \<Rightarrow>
             j < length (descendants soup) \<and> is_tag (str ''table'') (descendants soup ! j) \<and>
             (\<forall>k<j. \<not> is_tag (str ''table'') (descendants soup ! k)))) \<and>
   (locate_table soup (Some h) = Inr (Some j) \<longleftrightarrow>
      (\<exists>i<j. j < length (descendants soup) \<and>
         h2_matches h (descendants soup ! i) \<and>
         (\<forall>k<i. \<not> h2_matches h (descendants soup ! k)) \<and>
         is_tag (str ''table'') (descendants soup ! j) \<and>
         (\<forall>k. i < k \<and> k < j \<longrightarrow> \<not> is_tag (str ''table'') (descendants soup ! k)))) \<and>
   (h2_matches h n \<longleftrightarrow>
      is_tag (str ''h2'') n \<and> (\<exists>pre post. node_string n = Some (pre @ h @ post))) \<and>
   (readTable getSoup url hint = Inr (headers, data, soup') \<longrightarrow>
      (\<exists>j thead tbody.
         locate_table (getSoup url) hint = Inr (Some j) \<and>
         find_tag (is_tag (str ''thead'')) (decompose_all is_junk (descendants (getSoup url) ! j)) = Some thead \<and>
         find_tag (is_tag (str ''tbody'')) (decompose_all is_junk (descendants (getSoup url) ! j)) = Some tbody \<and>
         headers = find_all (is_tag (str ''th'')) thead \<and>
         data = map (find_all (is_tag (str ''td''))) (find_all (is_tag (str ''tr'')) tbody)))"
proof (intro conjI)
  let ?ds = "descendants soup" and ?t = "is_tag (str ''table'')"
  show "\<exists>r. locate_table soup None = Inr r \<and>
        (case r of
           None \<Rightarrow> \<forall>n\<in>set ?ds. \<not> ?t n
         | Some j \<Rightarrow> j < length ?ds \<and> ?t (?ds ! j) \<and> (\<forall>k<j. \<not> ?t (?ds ! k)))"
  proof (cases "first_index ?t ?ds")
    case None
    then have "\<forall>n\<in>set ?ds. \<not> ?t n" by (simp add: first_index_None)
    with None show ?thesis by (simp add: locate_none_eq)
  next
    case (Some j)
    then have "j < length ?ds \<and> ?t (?ds ! j) \<and> (\<forall>k<j. \<not> ?t (?ds ! k))"
      by (simp add: first_index_Some)
    with Some show ?thesis by (simp add: locate_none_eq)
  qed
  show "locate_table soup (Some h) = Inr (Some j) \<longleftrightarrow>
      (\<exists>i<j. j < length ?ds \<and> h2_matches h (?ds ! i) \<and> (\<forall>k<i. \<not> h2_matches h (?ds ! k)) \<and>
         ?t (?ds ! j) \<and> (\<forall>k. i < k \<and> k < j \<longrightarrow> \<not> ?t (?ds ! k)))"
    (is "?L \<longleftrightarrow> ?R")
  proof
    assume ?L
    then obtain i j' where i: "first_index (h2_matches h) ?ds = Some i"
      and j': "first_index ?t (drop (Suc i) ?ds) = Some j'" and j: "j = Suc i + j'"
      by (auto simp: locate_hint_Some)
    from i have 1: "i < length ?ds" "h2_matches h (?ds ! i)" "\<forall>k<i. \<not> h2_matches h (?ds ! k)"
      by (auto simp: first_index_Some)
    from j' j have 2: "j < length ?ds" "?t (?ds ! j)" "\<forall>k. Suc i \<le> k \<and> k < j \<longrightarrow> \<not> ?t (?ds ! k)"
      by (auto simp: first_index_drop)
    have "i < j" using j by simp
    with 1 2 show ?R by (auto simp: Suc_le_eq)
  next
    assume ?R
    then obtain i where ij: "i < j" and jl: "j < length ?ds"
      and h: "h2_matches h (?ds ! i)" "\<forall>k<i. \<not> h2_matches h (?ds ! k)"
      and t: "?t (?ds ! j)" "\<forall>k. i < k \<and> k < j \<longrightarrow> \<not> ?t (?ds ! k)"
      by blast
    have i: "first_index (h2_matches h) ?ds = Some i"
      using ij jl h by (simp add: first_index_Some)
    obtain j' where j: "j = Suc i + j'" using ij by (metis add_Suc less_iff_Suc_add)
    have "first_index ?t (drop (Suc i) ?ds) = Some j'"
      using jl t j by (auto simp: first_index_drop Suc_le_eq)
    with i j show ?L by (auto simp: locate_hint_Some)
  qed
  show "h2_matches h n \<longleftrightarrow>
      is_tag (str ''h2'') n \<and> (\<exists>pre post. node_string n = Some (pre @ h @ post))"
    by (rule h2_matches_iff)
  show "readTable getSoup url hint = Inr (headers, data, soup') \<longrightarrow>
      (\<exists>j thead tbody.
         locate_table (getSoup url) hint = Inr (Some j) \<and>
         find_tag (is_tag (str ''thead'')) (decompose_all is_junk (descendants (getSoup url) ! j)) = Some thead \<and>
         find_tag (is_tag (str ''tbody'')) (decompose_all is_junk (descendants (getSoup url) ! j)) = Some tbody \<and>
         headers = find_all (is_tag (str ''th'')) thead \<and>
         data = map (find_all (is_tag (str ''td''))) (find_all (is_tag (str ''tr'')) tbody))"
    by (auto simp: readTable_def Let_def split: sum.splits option.splits)
qed

text \<open>The claim as stated fails: a heading in lower case contains the hint when case is ignored, and a heading split over two nodes has a text that contains the hint; in both pages a table follows, and no table is selected.\<close>

theorem table_selection_counterexample:
  "is_tag (str ''h2'') (descendants page_lowercase ! 0) \<and>
   contains (lower (str ''Ratings History'')) (lower (node_text (descendants page_lowercase ! 0))) \<and>
   is_tag (str ''table'') (descendants page_lowercase ! 2) \<and>
   locate_table page_lowercase (Some (str ''Ratings History'')) = Inl AttributeError \<and>
   is_tag (str ''h2'') (descendants page_split_heading ! 0) \<and>
   contains (str ''Ratings History'') (node_text (descendants page_split_heading ! 0)) \<and>
   is_tag (str ''table'') (descendants page_split_heading ! 4) \<and>
   locate_table page_split_heading (Some (str ''Ratings History'')) = Inl AttributeError"
  by (simp add: locate_table_def h2_matches_def lower_def page_lowercase_def page_split_heading_def
      site_defs page_defs is_tag_def)

text \<open>The ratings page of the sample site: a table, the heading, the table of the ratings.\<close>

theorem table_selection_witness:
  "locate_table history_page None = Inr (Some 0) \<and>
   locate_table history_page (Some (str ''Ratings History'')) = Inr (Some 8) \<and>
   is_tag (str ''table'') (descendants history_page ! 8) \<and>
   (\<exists>i<8. h2_matches (str ''Ratings History'') (descendants history_page ! i))"
proof -
  have n: "locate_table history_page None = Inr (Some 0)"
    by (simp add: locate_table_def site_defs page_defs is_tag_def)
  have e: "locate_table history_page (Some (str ''Ratings History'')) = Inr (Some 8)"
    by (simp add: locate_table_def h2_matches_def site_defs page_defs is_tag_def)
  from table_selection[of history_page "str ''Ratings History''" 8, THEN conjunct2, THEN conjunct1,
      THEN iffD1, OF e]
  have "is_tag (str ''table'') (descendants history_page ! 8) \<and>
      (\<exists>i<8. h2_matches (str ''Ratings History'') (descendants history_page ! i))"
    by blast
  with n e show ?thesis by simp
qed

text \<open>
  Claim C5 (a workflow fails only when the table is not found): the code breaks it. On a
  page whose table is found and has a header and a body, \<^verbatim>\<open>getDailyRatingsTable\<close> fails
  with \<^verbatim>\<open>KeyError\<close> when every row is dropped, and also when the body has no row:
  \<^verbatim>\<open>buildDataFrame\<close> selects the columns \<^verbatim>\<open>date\<close>, \<^verbatim>\<open>symbol\<close> and \<^verbatim>\<open>brokerage\<close> of a
  frame that has no columns.
\<close>

theorem daily_all_rows_dropped:
  "readTable (serve page_all_bad) (BASE_URL @ str ''/ratings/us/'') None =
     Inr ([el ''th'' [] [tx ''Company'']], [bad_row, [], unrated_row], page_all_bad) \<and>
   getDailyRatingsTable str_of (serve page_all_bad) today = Inl KeyError \<and>
   readTable (serve page_no_rows) (BASE_URL @ str ''/ratings/us/'') None =
     Inr ([el ''th'' [] [tx ''Company'']], [], page_no_rows) \<and>
   getDailyRatingsTable str_of (serve page_no_rows) today = Inl KeyError"
proof -
  have s: "survivors (processRow_daily (str ''2020-01-02'')) [bad_row, [], unrated_row] = []"
    by (simp add: survivors_Cons survivors_Nil bad_row_fails empty_row_fails unrated_row_fails)
  have 1: "getDailyRatingsTable str_of (serve page_all_bad) today = Inl KeyError"
    using daily_workflow_eq[OF read_page_all_bad date_page_all_bad, of str_of today] s by simp
  have 2: "getDailyRatingsTable str_of (serve page_no_rows) today = Inl KeyError"
    using daily_workflow_eq[OF read_page_no_rows date_page_no_rows, of str_of today]
    by (simp add: survivors_Nil)
  from 1 2 read_page_all_bad read_page_no_rows show ?thesis by simp
qed



text \<open>
  Claim C7 (rating parsing). \<^verbatim>\<open>parseRatingTag\<close> returns as label the trimmed text after
  the final arrow glyph (the whole trimmed text when there is no arrow) and as code the
  integer that the attribute \<^verbatim>\<open>data-sort-value\<close> denotes, 3 for \<^verbatim>\<open>"3"\<close>; when the cell
  has no such attribute it returns the code -1 and does not fail.
\<close>

theorem rating_label_and_code:
  "(map_of (tag_attrs tag) (str ''data-sort-value'') = None \<longrightarrow>
      parseRatingTag tag = Inr (strip (after_final arrow (node_text tag)), - 1)) \<and>
   (map_of (tag_attrs tag) (str ''data-sort-value'') = Some v \<and> py_int v = Inr n \<longrightarrow>
      parseRatingTag tag = Inr (strip (after_final arrow (node_text tag)), n)) \<and>
   (map_of (tag_attrs tag) (str ''data-sort-value'') = Some (str ''3'') \<longrightarrow>
      parseRatingTag tag = Inr (strip (after_final arrow (node_text tag)), 3)) \<and>
   (arrow \<notin> set seg \<longrightarrow> after_final arrow (pre @ [arrow] @ seg) = seg) \<and>
   (arrow \<notin> set seg \<longrightarrow> after_final arrow seg = seg)"
  by (simp add: parseRatingTag_eq get_default_def py_int_default py_int_three
      after_final_append after_final_none)

text \<open>A cell with old and new rating and the sort value 3, and a cell without the attribute.\<close>

theorem rating_label_and_code_witness:
  "parseRatingTag rating_cell = Inr (str ''Buy'', 3) \<and>
   parseRatingTag rating_cell_plain = Inr (str ''Neutral'', - 1)"
proof -
  have a: "map_of (tag_attrs rating_cell) (str ''data-sort-value'') = Some (str ''3'') \<and>
      py_int (str ''3'') = Inr 3"
    by (simp add: py_int_three) (simp add: page_defs)
  have l: "strip (after_final arrow (node_text rating_cell)) = str ''Buy''"
    by (simp add: after_final_def page_defs string_defs)
  have b: "map_of (tag_attrs rating_cell_plain) (str ''data-sort-value'') = None"
    by (simp add: rating_cell_plain_def page_defs)
  have m: "strip (after_final arrow (node_text rating_cell_plain)) = str ''Neutral''"
    by (simp add: rating_cell_plain_def after_final_def page_defs string_defs)
  have 1: "parseRatingTag rating_cell = Inr (str ''Buy'', 3)"
    using rating_label_and_code[of rating_cell "str ''3''" 3 "[]" "[]",
        THEN conjunct2, THEN conjunct1, THEN mp, OF a]
    by (simp only: l)
  have 2: "parseRatingTag rating_cell_plain = Inr (str ''Neutral'', - 1)"
    using rating_label_and_code[of rating_cell_plain "[]" 0 "[]" "[]", THEN conjunct1, THEN mp, OF b]
    by (simp only: m)
  from 1 2 show ?thesis by (rule conjI)
qed

text \<open>
  Claim C8 (the date of the daily batch), amended. When \<^verbatim>\<open>getDailyRatingsTable\<close> returns
  a Dataset, one date was resolved for the batch and every row carries it in the column
  \<^verbatim>\<open>date\<close>. The date comes from the first \<^verbatim>\<open>div\<close> element, in document order, whose string
  holds a parenthesised pattern of one or two digits, a slash, one or two digits, a
  slash and four digits (in the document as \<^verbatim>\<open>readTable\<close> leaves it): the first such
  pattern of that element, read as month/day/year and written as year-month-day. When
  the document has no such \<^verbatim>\<open>div\<close> the date is the current date.
\<close>

theorem daily_batch_date:
  assumes "getDailyRatingsTable str_of getSoup today = Inr df"
  shows "\<exists>headers data soup date.
           readTable getSoup (BASE_URL @ str ''/ratings/us/'') None = Inr (headers, data, soup) \<and>
           page_date today soup = Inr date \<and>
           (\<forall>r\<in>set (rows df). cell df r (str ''date'') = VStr date) \<and>
           (find_tag date_div soup = None \<longrightarrow> date = today) \<and>
           (\<forall>tag. find_tag date_div soup = Some tag \<longrightarrow>
              (\<exists>before after g ymd pre post.
                 descendants soup = before @ tag # after \<and> (\<forall>n\<in>set before. \<not> date_div n) \<and>
                 date_div tag \<and>
                 date_re_search (node_text tag) = Some g \<and>
                 node_text tag = pre @ [40] @ g @ [41] @ post \<and>
                 strptime_mdY g = Inr ymd \<and> date = strftime_Ymd ymd))"
proof -
  from assms obtain headers data soup where
    r: "readTable getSoup (BASE_URL @ str ''/ratings/us/'') None = Inr (headers, data, soup)"
    by (cases "readTable getSoup (BASE_URL @ str ''/ratings/us/'') None")
       (auto simp: getDailyRatingsTable_def ebind_def Let_def)
  from assms r obtain date where d: "page_date today soup = Inr date"
    by (cases "page_date today soup") (auto simp: getDailyRatingsTable_def ebind_def Let_def)
  let ?S = "survivors (processRow_daily date) data"
  from assms daily_workflow_eq[OF r d, of str_of]
  have df: "df = \<lparr>columns = str ''uid'' # dataset_columns, rows = map (dataset_row str_of) ?S\<rparr>"
    by (simp split: if_splits)
  have 1: "\<forall>r\<in>set (rows df). cell df r (str ''date'') = VStr date"
  proof
    fix r assume "r \<in> set (rows df)"
    then obtain x where x: "x \<in> set ?S" and rx: "r = dataset_row str_of x" by (auto simp: df)
    from x have "field x (str ''date'') = VStr date"
      by (auto simp: survivors_set dest: processRow_daily_record)
    then show "cell df r (str ''date'') = VStr date"
      unfolding df rx by (rule dataset_row_date)
  qed
  note pd = page_date_cases[OF d]
  have 2: "\<exists>before after g ymd pre post.
                 descendants soup = before @ tag # after \<and> (\<forall>n\<in>set before. \<not> date_div n) \<and>
                 date_div tag \<and>
                 date_re_search (node_text tag) = Some g \<and>
                 node_text tag = pre @ [40] @ g @ [41] @ post \<and>
                 strptime_mdY g = Inr ymd \<and> date = strftime_Ymd ymd"
    if t: "find_tag date_div soup = Some tag" for tag
  proof -
    from pd t obtain g ymd where g: "date_re_search (node_text tag) = Some g"
      "strptime_mdY g = Inr ymd" "date = strftime_Ymd ymd" by blast
    from t obtain before after where "descendants soup = before @ tag # after"
      "\<forall>n\<in>set before. \<not> date_div n" "date_div tag"
      unfolding find_tag_def by (blast dest: find_Some_split)
    moreover from g(1) obtain pre post where "node_text tag = pre @ [40] @ g @ [41] @ post"
      by (blast dest: date_re_search_shape)
    ultimately show ?thesis using g by blast
  qed
  have 3: "find_tag date_div soup = None \<longrightarrow> date = today" using pd by (rule conjunct1)
  have 4: "\<forall>tag. find_tag date_div soup = Some tag \<longrightarrow>
              (\<exists>before after g ymd pre post.
                 descendants soup = before @ tag # after \<and> (\<forall>n\<in>set before. \<not> date_div n) \<and>
                 date_div tag \<and>
                 date_re_search (node_text tag) = Some g \<and>
                 node_text tag = pre @ [40] @ g @ [41] @ post \<and>
                 strptime_mdY g = Inr ymd \<and> date = strftime_Ymd ymd)"
    using 2 by (intro allI impI)
  show ?thesis
    by (rule exI[of _ headers], rule exI[of _ data], rule exI[of _ soup], rule exI[of _ date])
       (intro conjI r d 1 3 4)
qed

text \<open>A page with the date marker in a \<^verbatim>\<open>div\<close>, two good rows and a malformed one.\<close>

theorem daily_batch_date_witness:
  "getDailyRatingsTable no_str (serve page_mixed) (str ''2021-05-05'') = Inr frame_mixed \<and>
   cell frame_mixed (rows frame_mixed ! 0) (str ''date'') = VStr (str ''2020-01-02'') \<and>
   cell frame_mixed (rows frame_mixed ! 1) (str ''date'') = VStr (str ''2020-01-02'')"
proof -
  have e: "getDailyRatingsTable no_str (serve page_mixed) (str ''2021-05-05'') = Inr frame_mixed"
    by (rule daily_page_mixed)
  from daily_batch_date[OF e] obtain headers data soup date where
    r: "readTable (serve page_mixed) (BASE_URL @ str ''/ratings/us/'') None = Inr (headers, data, soup)"
    and d: "page_date (str ''2021-05-05'') soup = Inr date"
    and c: "\<forall>r\<in>set (rows frame_mixed). cell frame_mixed r (str ''date'') = VStr date"
    by blast
  from r have "soup = page_mixed" by (simp add: read_page_mixed)
  with d have dt: "date = str ''2020-01-02''" by (simp add: date_page_mixed)
  have "rows frame_mixed ! 0 \<in> set (rows frame_mixed)" "rows frame_mixed ! 1 \<in> set (rows frame_mixed)"
    by (simp_all add: frame_mixed_def)
  with c dt have "cell frame_mixed (rows frame_mixed ! 0) (str ''date'') = VStr (str ''2020-01-02'')"
    "cell frame_mixed (rows frame_mixed ! 1) (str ''date'') = VStr (str ''2020-01-02'')"
    by blast+
  with e show ?thesis by simp
qed

text \<open>The claim as stated fails: the page holds the pattern in a paragraph, and the rows carry the current date.\<close>

theorem daily_batch_date_counterexample:
  "date_re_search (node_text page_p_date) = Some (str ''1/2/2020'') \<and>
   getDailyRatingsTable no_str (serve page_p_date) (str ''2021-05-05'') =
     Inr \<lparr>columns = str ''uid'' # dataset_columns, rows = [sample_row ''2021-05-05'' ''AAA'']\<rparr>"
proof -
  have 1: "date_re_search (node_text page_p_date) = Some (str ''1/2/2020'')"
    by (simp add: date_re_match_def page_p_date_def page_defs string_defs)
  have s: "survivors (processRow_daily (str ''2021-05-05'')) [daily_row ''AAA''] =
      [sample_record ''2021-05-05'' ''AAA'']"
    by (simp add: survivors_Cons survivors_Nil daily_row_AAA sample_record_def)
  have 2: "getDailyRatingsTable no_str (serve page_p_date) (str ''2021-05-05'') =
     Inr \<lparr>columns = str ''uid'' # dataset_columns, rows = [sample_row ''2021-05-05'' ''AAA'']\<rparr>"
    using daily_workflow_eq[OF read_page_p_date date_page_p_date, of no_str "str ''2021-05-05''"]
    by (simp add: s sample_record_def sample_dataset_row)
  from 1 2 show ?thesis by (rule conjI)
qed

text \<open>
  Claim C9 (a second run of the Dataset Builder), amended. A run of \<^verbatim>\<open>buildDataFrame\<close>
  on the records of a Dataset it has built computes the same \<^verbatim>\<open>uid\<close> values again and
  then fails with \<^verbatim>\<open>ValueError\<close>, because the column \<^verbatim>\<open>uid\<close> exists: no second \<^verbatim>\<open>uid\<close>
  field is inserted, and no Dataset is returned. A built Dataset has the column \<^verbatim>\<open>uid\<close>
  once and no column \<^verbatim>\<open>brokerage_code\<close>, and records without the field
  \<^verbatim>\<open>brokerage_code\<close> give the same Dataset as the records with it.
\<close>

theorem rebuild_on_built_records:
  assumes "buildDataFrame str_of data = Inr df"
  shows "buildDataFrame str_of (to_records df) = Inl ValueError \<and>
         uid_index str_of (drop_column (str ''brokerage_code'') (DataFrame (to_records df))) =
           uid_index str_of (drop_column (str ''brokerage_code'') (DataFrame data)) \<and>
         map hd (rows df) =
           map VStr (uid_index str_of (drop_column (str ''brokerage_code'') (DataFrame data))) \<and>
         str ''brokerage_code'' \<notin> set (columns df) \<and>
         distinct (columns df) \<and>
         buildDataFrame str_of (map (filter (\<lambda>kv. fst kv \<noteq> str ''brokerage_code'')) data) = Inr df"
proof -
  let ?bc = "str ''brokerage_code''" and ?uid = "str ''uid''"
  let ?cs = "out_columns data"
  note b = build_success[OF assms]
  let ?R = "map (\<lambda>d. (?uid, VStr (record_uid str_of d)) # map (\<lambda>c. (c, field d c)) ?cs) data"
  have R: "to_records df = ?R" unfolding b(3) by (rule to_records_built)
  have ne: "?uid \<noteq> ?bc" by (simp add: str_def)
  have bc: "?bc \<notin> set ?cs" by (simp add: out_columns_def)
  have dcs: "distinct ?cs" by (simp add: out_columns_def distinct_frame_columns)
  have "?cs \<noteq> []" using b(1) by (auto simp: key_columns_def)
  then have dne: "data \<noteq> []" by (auto simp: out_columns_def frame_columns_Nil)
  have fc: "frame_columns ?R = ?uid # ?cs"
    using dne dcs b(2) by (intro frame_columns_uniform) (auto simp: comp_def)
  have fcs: "filter (\<lambda>c. c \<noteq> ?bc) ?cs = ?cs"
    by (simp add: out_columns_def)
  have oc: "out_columns ?R = ?uid # ?cs"
    using ne by (simp add: out_columns_def[of ?R] fc fcs)
  have k: "set key_columns \<subseteq> set (out_columns ?R)" using b(1) by (auto simp: oc)
  have 1: "buildDataFrame str_of (to_records df) = Inl ValueError"
    using k by (simp add: R buildDataFrame_eq[of str_of ?R] oc)
  have ru: "record_uid str_of ((?uid, VStr (record_uid str_of d)) # map (\<lambda>c. (c, field d c)) ?cs) =
      record_uid str_of d" for d
  proof -
    have "field ((?uid, VStr (record_uid str_of d)) # map (\<lambda>c. (c, field d c)) ?cs) k = field d k"
      if "k \<in> set key_columns" for k
      using that b(1) b(2) by (intro field_of_pairs) auto
    then show ?thesis by (simp add: record_uid_def key_columns_def)
  qed
  have 2: "uid_index str_of (drop_column ?bc (DataFrame (to_records df))) =
      uid_index str_of (drop_column ?bc (DataFrame data))"
    by (simp add: R uid_index_dropped[OF k] uid_index_dropped[OF b(1)] ru comp_def)
  have 3: "map hd (rows df) = map VStr (uid_index str_of (drop_column ?bc (DataFrame data)))"
    by (simp add: b(3) uid_index_dropped[OF b(1)] comp_def)
  have 4: "?bc \<notin> set (columns df)" using bc ne by (simp add: b(3))
  have 5: "distinct (columns df)" using dcs b(2) by (simp add: b(3))
  let ?F = "map (filter (\<lambda>kv. fst kv \<noteq> ?bc)) data"
  have of: "out_columns ?F = ?cs"
    by (simp add: out_columns_def frame_columns_filter[of "\<lambda>k. k \<noteq> ?bc"])
  have rows: "map (field (filter (\<lambda>kv. fst kv \<noteq> ?bc) d)) ?cs = map (field d) ?cs" for d
  proof (intro map_cong refl)
    fix x assume "x \<in> set ?cs"
    with bc have "x \<noteq> ?bc" by auto
    then show "field (filter (\<lambda>kv. fst kv \<noteq> ?bc) d) x = field d x"
      by (rule field_filter[of "\<lambda>k. k \<noteq> ?bc"])
  qed
  have 6: "buildDataFrame str_of ?F = Inr df"
    using b(1) b(2) by (simp add: buildDataFrame_eq[of str_of ?F] of b(3) comp_def record_uid_filter rows)
  show ?thesis using 1 2 3 4 5 6 by simp
qed

text \<open>The Dataset of two sample records.\<close>

theorem rebuild_on_built_records_witness:
  "buildDataFrame no_str (to_records sample_frame) = Inl ValueError \<and>
   str ''brokerage_code'' \<notin> set (columns sample_frame)"
  using rebuild_on_built_records[OF build_sample_records] by simp

text \<open>The claim as stated fails: the second run returns no Dataset.\<close>

theorem rebuild_not_idempotent_counterexample:
  "buildDataFrame no_str sample_records = Inr sample_frame \<and>
   buildDataFrame no_str (to_records sample_frame) = Inl ValueError"
proof -
  have "buildDataFrame no_str (to_records sample_frame) = Inl ValueError"
    by (simp add: buildDataFrame_def DataFrame_def frame_columns_def drop_column_def to_records_def
        sample_frame_def sample_row_def dataset_columns_def key_columns_def str_def Let_def)
  with build_sample_records show ?thesis by simp
qed

text \<open>
  Claim C10 (the default applies to an absent attribute only). When the rating cell has
  the attribute \<^verbatim>\<open>data-sort-value\<close> and its value is no string that \<^verbatim>\<open>int\<close> reads as a
  decimal integer (it is empty, or holds an ASCII character other than digits, underscore,
  sign and whitespace, or is otherwise rejected), \<^verbatim>\<open>parseRatingTag\<close> raises \<^verbatim>\<open>ValueError\<close>;
  whenever the parser returns a code, the code is the one the attribute denotes. A row
  with such a rating cell makes \<^verbatim>\<open>processRow\<close> raise in both workflows, and the loop
  leaves the row out.
\<close>

theorem rating_code_unparsable_raises:
  assumes "map_of (tag_attrs tag) (str ''data-sort-value'') = Some v"
  shows "(py_int v = Inl ValueError \<longrightarrow> parseRatingTag tag = Inl ValueError) \<and>
         ((\<exists>c \<in> set v. c < 128 \<and> \<not> int_char c) \<or> strip v = [] \<longrightarrow>
            parseRatingTag tag = Inl ValueError) \<and>
         (parseRatingTag tag = Inr (r, n) \<longrightarrow> py_int v = Inr n) \<and>
         (py_int v = Inl ValueError \<and> py_index row 6 = Inr tag \<longrightarrow>
            (\<exists>e. processRow_daily date row = Inl e) \<and>
            row_loop (processRow_daily date) acc (row # rest) =
              row_loop (processRow_daily date) acc rest) \<and>
         (py_int v = Inl ValueError \<and> py_index row 4 = Inr tag \<longrightarrow>
            (\<exists>e. processRow_symbol symbol exchange row = Inl e) \<and>
            row_loop (processRow_symbol symbol exchange) acc (row # rest) =
              row_loop (processRow_symbol symbol exchange) acc rest)"
proof -
  have g: "get_default tag (str ''data-sort-value'') (str ''-1'') = v"
    using assms by (simp add: get_default_def)
  have 1: "py_int v = Inl ValueError \<Longrightarrow> parseRatingTag tag = Inl ValueError"
    by (simp add: parseRatingTag_eq g)
  have 2: "(\<exists>c \<in> set v. c < 128 \<and> \<not> int_char c) \<or> strip v = [] \<Longrightarrow> py_int v = Inl ValueError"
  proof (erule disjE)
    assume "\<exists>c \<in> set v. c < 128 \<and> \<not> int_char c"
    then show ?thesis by (auto intro: py_int_foreign)
  next
    assume "strip v = []"
    then show ?thesis by (simp add: py_int_def)
  qed
  have 3: "parseRatingTag tag = Inr (r, n) \<Longrightarrow> py_int v = Inr n"
    by (auto simp: parseRatingTag_eq g split: sum.splits)
  have 4: "py_int v = Inl ValueError \<Longrightarrow> py_index row 6 = Inr tag \<Longrightarrow>
      \<exists>e. processRow_daily date row = Inl e"
    using 1 by (blast intro: processRow_daily_rating_error)
  have 5: "py_int v = Inl ValueError \<Longrightarrow> py_index row 4 = Inr tag \<Longrightarrow>
      \<exists>e. processRow_symbol symbol exchange row = Inl e"
    using 1 by (blast intro: processRow_symbol_rating_error)
  show ?thesis using 1 2 3 4 5 by (auto simp del: split_paired_Ex)
qed

text \<open>A rating cell with the sort value \<^verbatim>\<open>3.5\<close>, in the last cell of a daily row.\<close>

theorem rating_code_unparsable_raises_witness:
  "parseRatingTag rating_cell_decimal = Inl ValueError \<and>
   row_loop (processRow_daily (str ''2020-01-02'')) [] (unrated_row # [daily_row ''AAA'']) =
     row_loop (processRow_daily (str ''2020-01-02'')) [] [daily_row ''AAA'']"
proof -
  have a: "map_of (tag_attrs rating_cell_decimal) (str ''data-sort-value'') = Some (str ''3.5'')"
    by (simp add: rating_cell_decimal_def page_defs)
  have p: "py_int (str ''3.5'') = Inl ValueError"
    by (simp add: number_defs string_defs str_def)
  have i: "py_index unrated_row 6 = Inr rating_cell_decimal"
    by (simp add: unrated_row_def py_index_def)
  note t = rating_code_unparsable_raises[OF a, where row = unrated_row
      and date = "str ''2020-01-02''" and acc = "[]" and rest = "[daily_row ''AAA'']"]
  have 1: "parseRatingTag rating_cell_decimal = Inl ValueError"
    using t[THEN conjunct1, THEN mp, OF p] .
  have 2: "row_loop (processRow_daily (str ''2020-01-02'')) [] (unrated_row # [daily_row ''AAA'']) =
     row_loop (processRow_daily (str ''2020-01-02'')) [] [daily_row ''AAA'']"
    using t[THEN conjunct2, THEN conjunct2, THEN conjunct2, THEN conjunct1, THEN mp, OF conjI, OF p i]
    by (rule conjunct2)
  from 1 2 show ?thesis by (rule conjI)
qed

end
